theory Spec2Isabelle
  imports Complex_Main "HOL-Library.Sublist"
begin

section \<open>JavaScript values, exceptions and strings\<close>

text \<open>
  The package is a JavaScript class \<open>Logger\<close> in two versions: the earlier one in
  \<open>src/lib/logger.js\<close> and the later one in \<open>src/unnamed/part_001\<close>. Definitions without a
  suffix follow the later version; where the earlier version differs, its function has the
  suffix \<open>_lib\<close>. A \<open>throw\<close> of the source is the \<open>Inl\<close> branch of a result.
\<close>

text \<open>
  An \<open>Error\<close> carries the message the code gives it. The TypeErrors and SyntaxErrors here
  are thrown by the engine; their message is the engine's wording and is left out.
\<close>

datatype js_exn = Error string | TypeError | SyntaxError

type_synonym 'a result = "js_exn + 'a"

text \<open>
  The values a payload can hold. \<open>JNum\<close> is a finite number, carried as the text that
  \<open>Number.prototype.toString\<close> gives for it (\<open>42\<close>, \<open>1.5\<close>, \<open>1e+21\<close>), which is also what
  \<open>JSON.stringify\<close> writes and what \<open>JSON.parse\<close> reads back to the same number;
  \<open>JInfinity True\<close> is \<open>-Infinity\<close>; \<open>JFunction\<close> carries the source text that
  \<open>Function.prototype.toString\<close> returns; \<open>JCycle\<close> is a property whose value is one of the
  objects that enclose it, which makes the payload cyclic. Symbols, arrays that contain
  themselves and objects with a \<open>toJSON\<close> or \<open>toString\<close> method of their own are outside the
  model. An object lists its own enumerable string-keyed properties in property order.
\<close>

datatype jsval =
    JUndefined
  | JNull
  | JBool bool
  | JNum string
  | JNaN
  | JInfinity bool
  | JBigInt int
  | JStr string
  | JFunction string
  | JArr "jsval list"
  | JObj "(string \<times> jsval) list"
  | JCycle

text \<open>
  An optional string: \<open>None\<close> is \<open>undefined\<close> (an argument that was not passed, a
  property that is not there). A string is truthy when it is not empty.
\<close>

definition truthy :: "string option \<Rightarrow> bool" where
  "truthy v = (case v of None \<Rightarrow> False | Some s \<Rightarrow> s \<noteq> [])"

text \<open>
  What a template literal inserts for an optional string: the string itself, or the text
  \<open>undefined\<close>. For a string value this is the value, so \<open>return message\<close> on a truthy
  \<open>message\<close> is \<open>tmpl message\<close>.
\<close>

definition tmpl :: "string option \<Rightarrow> string" where
  "tmpl v = (case v of None \<Rightarrow> ''undefined'' | Some s \<Rightarrow> s)"

text \<open>Default parameter values: the default is taken when the argument is \<open>undefined\<close>.\<close>

definition default_arg :: "'a \<Rightarrow> 'a option \<Rightarrow> 'a" where
  "default_arg d v = (case v of None \<Rightarrow> d | Some x \<Rightarrow> x)"

subsection \<open>Decimal rendering of integers\<close>

definition digit_char :: "int \<Rightarrow> char" where
  "digit_char d = char_of (48 + d)"

text \<open>The decimal digits of an integer that is not negative.\<close>

function decimal :: "int \<Rightarrow> string" where
  "decimal n = (if n < 10 then [digit_char n] else decimal (n div 10) @ [digit_char (n mod 10)])"
  by pat_completeness auto
termination
  by (relation "measure nat") auto

declare decimal.simps [simp del]

definition int_to_string :: "int \<Rightarrow> string" where
  "int_to_string i = (if i < 0 then ''-'' @ decimal (- i) else decimal i)"

text \<open>\<open>String(n).padStart(w, "0")\<close> for an integer that is not negative.\<close>

definition pad :: "nat \<Rightarrow> int \<Rightarrow> string" where
  "pad w n = replicate (w - length (decimal n)) (CHR ''0'') @ decimal n"

subsection \<open>\<open>String.prototype.includes\<close>\<close>

fun starts_with :: "string \<Rightarrow> string \<Rightarrow> bool" where
  "starts_with s [] = True"
| "starts_with [] (p # ps) = False"
| "starts_with (c # cs) (p # ps) = (c = p \<and> starts_with cs ps)"

fun str_includes :: "string \<Rightarrow> string \<Rightarrow> bool" where
  "str_includes [] pat = starts_with [] pat"
| "str_includes (c # cs) pat = (starts_with (c # cs) pat \<or> str_includes cs pat)"

subsection \<open>\<open>String.prototype.split\<close> with a one-character separator\<close>

fun split_acc :: "char \<Rightarrow> string \<Rightarrow> string \<Rightarrow> string list" where
  "split_acc sep acc [] = [rev acc]"
| "split_acc sep acc (c # cs) =
     (if c = sep then rev acc # split_acc sep [] cs else split_acc sep (c # acc) cs)"

definition str_split :: "string \<Rightarrow> char \<Rightarrow> string list" where
  "str_split s sep = split_acc sep [] s"

text \<open>Reading index 0 of an array of strings: \<open>undefined\<close> when the array is empty.\<close>

definition first_elem :: "string list \<Rightarrow> string option" where
  "first_elem xs = (case xs of [] \<Rightarrow> None | x # _ \<Rightarrow> Some x)"

section \<open>The formatter\<close>

subsection \<open>\<open>#customFormat\<close>\<close>

text \<open>
  Later version:
  \<^verbatim>\<open>if (eventType && message) return `${eventType}: ${message}`;
  if (message) return message;  if (eventType) return eventType;  return "";\<close>
\<close>

definition customFormat :: "string option \<Rightarrow> string option \<Rightarrow> string" where
  "customFormat message eventType =
     (if truthy eventType \<and> truthy message then tmpl eventType @ '': '' @ tmpl message
      else if truthy message then tmpl message
      else if truthy eventType then tmpl eventType
      else '''')"

text \<open>
  Earlier version:
  \<^verbatim>\<open>if (eventType) return `${message} in ${eventType}`;  return message;\<close>
  It returns \<open>message\<close> itself, which may be \<open>undefined\<close>.
\<close>

definition customFormat_lib :: "string option \<Rightarrow> string option \<Rightarrow> string option" where
  "customFormat_lib message eventType =
     (if truthy eventType then Some (tmpl message @ '' in '' @ tmpl eventType)
      else message)"

subsection \<open>\<open>#formatError\<close>\<close>

text \<open>
  The \<open>err\<close> argument: \<open>undefined\<close>/\<open>null\<close>, a string, or any other value, of which the code
  reads \<open>toString()\<close>, \<open>message\<close> and \<open>stack\<close>. \<open>err_toString\<close> is the string the call
  \<open>toString()\<close> returns, and \<open>None\<close> when the value has no callable \<open>toString\<close> (an object
  made with \<open>Object.create(null)\<close>), so that the call throws a TypeError.
\<close>

record error_obj =
  err_toString :: "string option"
  err_message :: "string option"
  err_stack :: "string option"

datatype js_err = ErrNullish | ErrString string | ErrObject error_obj

text \<open>
  \<open>err?.toString()\<close>, \<open>err?.message\<close> and \<open>err?.stack\<close>. The optional chaining yields
  \<open>undefined\<close> for a missing \<open>err\<close>; it does not guard the call on a value that is there.
\<close>

fun opt_toString :: "js_err \<Rightarrow> string option result" where
  "opt_toString ErrNullish = Inr None"
| "opt_toString (ErrString s) = Inr (Some s)"
| "opt_toString (ErrObject e) =
     (case err_toString e of None \<Rightarrow> Inl TypeError | Some t \<Rightarrow> Inr (Some t))"

fun opt_message :: "js_err \<Rightarrow> string option" where
  "opt_message ErrNullish = None"
| "opt_message (ErrString s) = None"
| "opt_message (ErrObject e) = err_message e"

fun opt_stack :: "js_err \<Rightarrow> string option" where
  "opt_stack ErrNullish = None"
| "opt_stack (ErrString s) = None"
| "opt_stack (ErrObject e) = err_stack e"

text \<open>\<open>typeof error === "string"\<close>.\<close>

fun is_string :: "js_err \<Rightarrow> bool" where
  "is_string (ErrString s) = True"
| "is_string _ = False"

text \<open>
  Later version:
  \<^verbatim>\<open>if (typeof error === "string") return `${error?.toString()}.`;
  return `[ERROR] ${message} ${error?.toString()}. Stack:\n${error?.stack}`;\<close>
\<close>

definition formatError :: "js_err \<Rightarrow> string \<Rightarrow> string result" where
  "formatError error message =
     (if is_string error
      then (case opt_toString error of
              Inl x \<Rightarrow> Inl x
            | Inr t \<Rightarrow> Inr (tmpl t @ ''.''))
      else (case opt_toString error of
              Inl x \<Rightarrow> Inl x
            | Inr t \<Rightarrow>
                Inr (''[ERROR] '' @ message @ '' '' @ tmpl t
                     @ ''. Stack:\<newline>'' @ tmpl (opt_stack error))))"

text \<open>
  Earlier version: \<^verbatim>\<open>return `${message} ${error.toString()}. Stack:\n${error.stack}`;\<close>
  Without the optional chaining, reading a property of \<open>undefined\<close> or \<open>null\<close> throws a
  TypeError.
\<close>

definition formatError_lib :: "js_err \<Rightarrow> string option \<Rightarrow> string result" where
  "formatError_lib error message =
     (case error of
        ErrNullish \<Rightarrow> Inl TypeError
      | _ \<Rightarrow>
          (case opt_toString error of
             Inl x \<Rightarrow> Inl x
           | Inr t \<Rightarrow>
               Inr (tmpl message @ '' '' @ tmpl t
                    @ ''. Stack:\<newline>'' @ tmpl (opt_stack error))))"

subsection \<open>\<open>JSON.stringify\<close>\<close>

text \<open>
  \<open>QuoteJSONString\<close> of the ECMAScript specification, on a string of bytes: the quote, the
  backslash and the control characters are escaped, every other byte is copied.
\<close>

definition hex_digit :: "nat \<Rightarrow> char" where
  "hex_digit d = (if d < 10 then char_of (48 + d) else char_of (87 + d))"

definition quote_char :: "char \<Rightarrow> string" where
  "quote_char c =
     (if c = CHR 0x08 then [CHR 0x5C, CHR ''b'']
      else if c = CHR 0x09 then [CHR 0x5C, CHR ''t'']
      else if c = CHR 0x0A then [CHR 0x5C, CHR ''n'']
      else if c = CHR 0x0C then [CHR 0x5C, CHR ''f'']
      else if c = CHR 0x0D then [CHR 0x5C, CHR ''r'']
      else if c = CHR 0x22 then [CHR 0x5C, CHR 0x22]
      else if c = CHR 0x5C then [CHR 0x5C, CHR 0x5C]
      else if (of_char c :: nat) < 32
        then [CHR 0x5C, CHR ''u'', CHR ''0'', CHR ''0'',
              hex_digit ((of_char c :: nat) div 16), hex_digit ((of_char c :: nat) mod 16)]
      else [c])"

definition quote :: "string \<Rightarrow> string" where
  "quote s = [CHR 0x22] @ concat (map quote_char s) @ [CHR 0x22]"

text \<open>\<open>Array.prototype.join\<close> on an array of strings.\<close>

fun join :: "string \<Rightarrow> string list \<Rightarrow> string" where
  "join sep [] = []"
| "join sep [x] = x"
| "join sep (x # y # ys) = x @ sep @ join sep (y # ys)"

text \<open>
  The closing step of \<open>SerializeJSONObject\<close> and \<open>SerializeJSONArray\<close>: \<open>stepback\<close> is the
  indentation of the enclosing level, \<open>stepback @ gap\<close> the one of the members.
\<close>

definition wrap :: "string \<Rightarrow> string \<Rightarrow> string \<Rightarrow> string \<Rightarrow> string list \<Rightarrow> string" where
  "wrap opening closing gap stepback partial =
     (if partial = [] then opening @ closing
      else if gap = [] then opening @ join '','' partial @ closing
      else opening @ ''\<newline>'' @ (stepback @ gap)
           @ join ('',\<newline>'' @ (stepback @ gap)) partial
           @ ''\<newline>'' @ stepback @ closing)"

text \<open>
  \<open>SerializeJSONProperty\<close>: \<open>None\<close> is the \<open>undefined\<close> result, for which an object drops
  the member and an array writes \<open>null\<close>. A BigInt throws, and so does a value that is
  already being serialized (\<open>JCycle\<close>).
\<close>

fun ser :: "string \<Rightarrow> string \<Rightarrow> jsval \<Rightarrow> string option result"
  and ser_elems :: "string \<Rightarrow> string \<Rightarrow> jsval list \<Rightarrow> string list result"
  and ser_members :: "string \<Rightarrow> string \<Rightarrow> (string \<times> jsval) list \<Rightarrow> string list result"
where
  "ser gap ind JUndefined = Inr None"
| "ser gap ind (JFunction src) = Inr None"
| "ser gap ind JNull = Inr (Some ''null'')"
| "ser gap ind (JBool b) = Inr (Some (if b then ''true'' else ''false''))"
| "ser gap ind (JNum txt) = Inr (Some txt)"
| "ser gap ind JNaN = Inr (Some ''null'')"
| "ser gap ind (JInfinity neg) = Inr (Some ''null'')"
| "ser gap ind (JBigInt n) = Inl TypeError"
| "ser gap ind JCycle = Inl TypeError"
| "ser gap ind (JStr s) = Inr (Some (quote s))"
| "ser gap ind (JArr xs) =
     (case ser_elems gap (ind @ gap) xs of
        Inl e \<Rightarrow> Inl e
      | Inr partial \<Rightarrow> Inr (Some (wrap ''['' '']'' gap ind partial)))"
| "ser gap ind (JObj kvs) =
     (case ser_members gap (ind @ gap) kvs of
        Inl e \<Rightarrow> Inl e
      | Inr partial \<Rightarrow> Inr (Some (wrap ''{'' ''}'' gap ind partial)))"
| "ser_elems gap ind [] = Inr []"
| "ser_elems gap ind (x # xs) =
     (case ser gap ind x of
        Inl e \<Rightarrow> Inl e
      | Inr r \<Rightarrow>
          (case ser_elems gap ind xs of
             Inl e \<Rightarrow> Inl e
           | Inr rs \<Rightarrow> Inr (default_arg ''null'' r # rs)))"
| "ser_members gap ind [] = Inr []"
| "ser_members gap ind ((k, v) # kvs) =
     (case ser gap ind v of
        Inl e \<Rightarrow> Inl e
      | Inr r \<Rightarrow>
          (case ser_members gap ind kvs of
             Inl e \<Rightarrow> Inl e
           | Inr rs \<Rightarrow>
               Inr ((case r of
                       None \<Rightarrow> []
                     | Some str \<Rightarrow> [quote k @ '':'' @ (if gap = [] then [] else '' '') @ str])
                    @ rs)))"

text \<open>
  \<open>JSON.stringify(value, null, space)\<close> with a numeric \<open>space\<close>; \<open>JSON.stringify(value)\<close> is
  \<open>space = 0\<close>. The result \<open>None\<close> is \<open>undefined\<close>.
\<close>

definition JSON_stringify :: "jsval \<Rightarrow> nat \<Rightarrow> string option result" where
  "JSON_stringify v space = ser (replicate (min 10 space) (CHR '' '')) [] v"

text \<open>
  \<open>JSON.parse(JSON.stringify(v))\<close>, as one step: the value that is read back from the text
  \<open>JSON.stringify\<close> writes. Members that are \<open>undefined\<close> or functions are gone, such
  elements of an array and the non-finite numbers are \<open>null\<close>, a BigInt and a cycle throw,
  and \<open>JSON.parse(undefined)\<close> is a SyntaxError.
\<close>

fun read_back :: "jsval \<Rightarrow> jsval option result"
  and read_back_elems :: "jsval list \<Rightarrow> jsval list result"
  and read_back_members :: "(string \<times> jsval) list \<Rightarrow> (string \<times> jsval) list result"
where
  "read_back JUndefined = Inr None"
| "read_back (JFunction src) = Inr None"
| "read_back JNull = Inr (Some JNull)"
| "read_back (JBool b) = Inr (Some (JBool b))"
| "read_back (JNum txt) = Inr (Some (JNum txt))"
| "read_back JNaN = Inr (Some JNull)"
| "read_back (JInfinity neg) = Inr (Some JNull)"
| "read_back (JBigInt n) = Inl TypeError"
| "read_back JCycle = Inl TypeError"
| "read_back (JStr s) = Inr (Some (JStr s))"
| "read_back (JArr xs) =
     (case read_back_elems xs of Inl e \<Rightarrow> Inl e | Inr ys \<Rightarrow> Inr (Some (JArr ys)))"
| "read_back (JObj kvs) =
     (case read_back_members kvs of Inl e \<Rightarrow> Inl e | Inr ms \<Rightarrow> Inr (Some (JObj ms)))"
| "read_back_elems [] = Inr []"
| "read_back_elems (x # xs) =
     (case read_back x of
        Inl e \<Rightarrow> Inl e
      | Inr r \<Rightarrow>
          (case read_back_elems xs of
             Inl e \<Rightarrow> Inl e
           | Inr rs \<Rightarrow> Inr (default_arg JNull r # rs)))"
| "read_back_members [] = Inr []"
| "read_back_members ((k, v) # kvs) =
     (case read_back v of
        Inl e \<Rightarrow> Inl e
      | Inr r \<Rightarrow>
          (case read_back_members kvs of
             Inl e \<Rightarrow> Inl e
           | Inr rs \<Rightarrow> Inr ((case r of None \<Rightarrow> [] | Some w \<Rightarrow> [(k, w)]) @ rs)))"

definition JSON_parse_stringify :: "jsval \<Rightarrow> jsval result" where
  "JSON_parse_stringify v =
     (case read_back v of
        Inl e \<Rightarrow> Inl e
      | Inr None \<Rightarrow> Inl SyntaxError
      | Inr (Some w) \<Rightarrow> Inr w)"

subsection \<open>lodash \<open>omit\<close> and \<open>isEmpty\<close>, property reads, \<open>ToString\<close>\<close>

definition omit :: "(string \<times> jsval) list \<Rightarrow> string list \<Rightarrow> (string \<times> jsval) list" where
  "omit object paths = filter (\<lambda>(k, v). k \<notin> set paths) object"

fun isEmpty :: "jsval \<Rightarrow> bool" where
  "isEmpty (JObj kvs) = (kvs = [])"
| "isEmpty (JArr xs) = (xs = [])"
| "isEmpty (JStr s) = (s = [])"
| "isEmpty JCycle = False"
| "isEmpty _ = True"

text \<open>\<open>object.key\<close>: \<open>undefined\<close> when the object has no such property.\<close>

definition get_prop :: "(string \<times> jsval) list \<Rightarrow> string \<Rightarrow> jsval" where
  "get_prop object k = (case map_of object k of None \<Rightarrow> JUndefined | Some v \<Rightarrow> v)"

text \<open>
  \<open>ToString\<close>, as a template literal applies it. An array joins its elements with commas,
  \<open>null\<close> and \<open>undefined\<close> elements being empty.
\<close>

fun toStringJS :: "jsval \<Rightarrow> string"
  and toString_elems :: "jsval list \<Rightarrow> string list"
where
  "toStringJS JUndefined = ''undefined''"
| "toStringJS JNull = ''null''"
| "toStringJS (JBool b) = (if b then ''true'' else ''false'')"
| "toStringJS (JNum txt) = txt"
| "toStringJS JNaN = ''NaN''"
| "toStringJS (JInfinity neg) = (if neg then ''-Infinity'' else ''Infinity'')"
| "toStringJS (JBigInt n) = int_to_string n"
| "toStringJS (JStr s) = s"
| "toStringJS (JFunction src) = src"
| "toStringJS (JArr xs) = join '','' (toString_elems xs)"
| "toStringJS (JObj kvs) = ''[object Object]''"
| "toStringJS JCycle = ''[object Object]''"
| "toString_elems [] = []"
| "toString_elems (x # xs) =
     (if x = JUndefined \<or> x = JNull then [] else toStringJS x) # toString_elems xs"

subsection \<open>\<open>#formatMessage\<close> (the same text in both versions)\<close>

text \<open>
  \<^verbatim>\<open>const meta = omit(info, "timestamp", "message", "level");
  return isEmpty(JSON.parse(JSON.stringify(meta)))
    ? `${info.timestamp} ${info.level}: ${info.message}`
    : `${info.timestamp} ${info.level}: ${info.message}\n${JSON.stringify(meta, null, 2)}`;\<close>
\<close>

definition message_line :: "(string \<times> jsval) list \<Rightarrow> string" where
  "message_line info =
     toStringJS (get_prop info ''timestamp'') @ '' '' @ toStringJS (get_prop info ''level'')
     @ '': '' @ toStringJS (get_prop info ''message'')"

definition formatMessage :: "(string \<times> jsval) list \<Rightarrow> string result" where
  "formatMessage info =
     (let meta = omit info [''timestamp'', ''message'', ''level''] in
      case JSON_parse_stringify (JObj meta) of
        Inl e \<Rightarrow> Inl e
      | Inr parsed \<Rightarrow>
          if isEmpty parsed then Inr (message_line info)
          else (case JSON_stringify (JObj meta) 2 of
                  Inl e \<Rightarrow> Inl e
                | Inr text \<Rightarrow> Inr (message_line info @ ''\<newline>'' @ tmpl text)))"

section \<open>Dates\<close>

text \<open>
  \<open>new Date().toISOString()\<close>, as a function of the clock reading \<open>now\<close> in milliseconds
  since the epoch. The calendar date of a day number is computed with the usual
  era/day-of-era arithmetic of the proleptic Gregorian calendar.
\<close>

definition civil_from_days :: "int \<Rightarrow> int \<times> int \<times> int" where
  "civil_from_days days =
     (let z = days + 719468;
          era = z div 146097;
          doe = z mod 146097;
          yoe = (doe - doe div 1460 + doe div 36524 - doe div 146096) div 365;
          y = yoe + era * 400;
          doy = doe - (365 * yoe + yoe div 4 - yoe div 100);
          mp = (5 * doy + 2) div 153;
          d = doy - (153 * mp + 2) div 5 + 1;
          m = (if mp < 10 then mp + 3 else mp - 9)
      in (if m \<le> 2 then y + 1 else y, m, d))"

definition year_string :: "int \<Rightarrow> string" where
  "year_string y =
     (if 0 \<le> y \<and> y \<le> 9999 then pad 4 y
      else (if y < 0 then ''-'' else ''+'') @ pad 6 \<bar>y\<bar>)"

definition date_string :: "int \<Rightarrow> string" where
  "date_string days =
     (case civil_from_days days of
        (y, m, d) \<Rightarrow> year_string y @ ''-'' @ pad 2 m @ ''-'' @ pad 2 d)"

definition time_string :: "int \<Rightarrow> string" where
  "time_string ms =
     pad 2 (ms div 3600000) @ '':'' @ pad 2 (ms div 60000 mod 60) @ '':''
     @ pad 2 (ms div 1000 mod 60) @ ''.'' @ pad 3 (ms mod 1000) @ ''Z''"

definition toISOString :: "int \<Rightarrow> string" where
  "toISOString now =
     date_string (now div 86400000) @ ''T'' @ time_string (now mod 86400000)"

section \<open>The sampling policy\<close>

text \<open>The sampling context of the error tracker: \<open>context?.request?.url\<close> and \<open>.method\<close>.\<close>

record request =
  req_url :: "string option"
  req_method :: "string option"

record sampling_context =
  ctx_request :: "request option"

definition context_url :: "sampling_context option \<Rightarrow> string option" where
  "context_url context =
     (case context of
        None \<Rightarrow> None
      | Some c \<Rightarrow> (case ctx_request c of None \<Rightarrow> None | Some r \<Rightarrow> req_url r))"

definition context_method :: "sampling_context option \<Rightarrow> string option" where
  "context_method context =
     (case context of
        None \<Rightarrow> None
      | Some c \<Rightarrow> (case ctx_request c of None \<Rightarrow> None | Some r \<Rightarrow> req_method r))"

text \<open>\<open>url?.includes(endpoint)\<close>: \<open>undefined\<close>, which is falsy, when there is no URL.\<close>

definition opt_includes :: "string option \<Rightarrow> string \<Rightarrow> bool" where
  "opt_includes url endpoint = (case url of None \<Rightarrow> False | Some u \<Rightarrow> str_includes u endpoint)"

text \<open>
  The arrow function passed as \<open>tracesSampler\<close>; its free variables \<open>tracesSampleRate\<close>,
  \<open>ignoreURLs\<close>, \<open>customURLs\<close> and \<open>customURLsSampleRate\<close> are the first four arguments.
  \<^verbatim>\<open>const skipURLs = ["/health", ...ignoreURLs];
  const url = context?.request?.url;
  const isOptionsCall = context?.request?.method === "OPTIONS";
  let sampleRate = tracesSampleRate;
  if (skipURLs.some((endpoint) => url?.includes(endpoint)) || isOptionsCall) sampleRate = 0;
  else if (customURLs.some((endpoint) => url?.includes(endpoint)))
    sampleRate = customURLsSampleRate;
  return sampleRate;\<close>
\<close>

definition tracesSampler ::
  "real \<Rightarrow> string list \<Rightarrow> string list \<Rightarrow> real \<Rightarrow> sampling_context option \<Rightarrow> real" where
  "tracesSampler tracesSampleRate ignoreURLs customURLs customURLsSampleRate context =
     (let skipURLs = ''/health'' # ignoreURLs;
          url = context_url context;
          isOptionsCall = (context_method context = Some ''OPTIONS'')
      in if list_ex (\<lambda>endpoint. opt_includes url endpoint) skipURLs \<or> isOptionsCall then 0
         else if list_ex (\<lambda>endpoint. opt_includes url endpoint) customURLs
           then customURLsSampleRate
         else tracesSampleRate)"

section \<open>The Logger instance\<close>

subsection \<open>Sinks\<close>

datatype format_step =
    Colorize
  | Timestamp
  | Printf "(string \<times> jsval) list \<Rightarrow> string result"

record console_opts =
  co_level :: string
  co_format :: "format_step list"

text \<open>
  The options of the sinks. \<open>logStreamName\<close> is a function: the sink calls it, with the
  clock as it is then.
\<close>

record cloudwatch_opts =
  cw_logGroupName :: string
  cw_logStreamName :: "int \<Rightarrow> string"
  cw_awsRegion :: string
  cw_jsonMessage :: bool
  cw_level :: string

record loggly_opts =
  lg_token :: string
  lg_subdomain :: string
  lg_tags :: "string option list"
  lg_json :: bool
  lg_stripColors :: bool
  lg_level :: string

datatype transport = Console console_opts | Cloudwatch cloudwatch_opts | Loggly loggly_opts

record log_entry =
  entry_level :: string
  entry_message :: string
  entry_meta :: jsval

text \<open>
  The object \<open>winston.createLogger\<close> returns; \<open>wl_written\<close> lists the calls of its
  \<open>debug\<close>/\<open>info\<close>/\<open>warn\<close>/\<open>error\<close> methods, which hand the record to the transports.
\<close>

record winston_logger =
  wl_levels :: "(string \<times> nat) list"
  wl_format :: "format_step list"
  wl_transports :: "transport list"
  wl_written :: "log_entry list"

definition config_levels :: "(string \<times> nat) list" where
  "config_levels = [(''error'', 0), (''warn'', 1), (''info'', 2), (''debug'', 3)]"

definition UNINITIALIZED_ERROR :: string where
  "UNINITIALIZED_ERROR = ''Logger is not initialized''"

subsection \<open>The error tracker and the webhook\<close>

datatype router = Router nat

datatype integration = Http bool | Express router

text \<open>The options object passed to \<open>sentry.init\<close> (later version).\<close>

record sentry_options =
  so_dsn :: string
  so_environment :: "string option"
  so_ignoreErrors :: "string list"
  so_integrations :: "integration list"
  so_tracesSampler :: "sampling_context option \<Rightarrow> real"

record field =
  fd_title :: string
  fd_short :: bool
  fd_value :: string

record attachment =
  att_fallback :: string
  att_pretext :: string
  att_color :: "string option"
  att_fields :: "field list"

record http_post =
  post_url :: "string option"
  post_attachments :: "attachment list"
  post_headers :: "(string \<times> string) list"

subsection \<open>State\<close>

text \<open>
  The fields of the instance (\<open>this.level\<close>, \<open>this.logger\<close>, \<open>this.webhookUrl\<close>,
  \<open>this.webhookColor\<close>, \<open>this.tag\<close>, \<open>this.#sentry\<close>), followed by what the instance has done
  to its collaborators: the calls of \<open>sentry.init\<close>, of \<open>captureException\<close> and of
  \<open>axios.post\<close>, in order. \<open>this_sentry\<close> is \<open>False\<close> for \<open>null\<close> and \<open>True\<close> for the SDK module.
  The earlier version has no webhook fields and no tag; it leaves them as they are.
\<close>

record logger_state =
  this_level :: string
  this_logger :: "winston_logger option"
  this_webhookUrl :: "string option"
  this_webhookColor :: "string option"
  this_tag :: "string option"
  this_sentry :: bool
  sentry_inits :: "sentry_options list"
  sentry_captures :: "(js_err \<times> (string \<times> jsval) list) list"
  http_posts :: "http_post list"

text \<open>\<open>new Logger()\<close>, in a process that has not used the collaborators yet.\<close>

definition new_Logger :: logger_state where
  "new_Logger =
     \<lparr>this_level = ''debug'', this_logger = None, this_webhookUrl = None,
      this_webhookColor = None, this_tag = None, this_sentry = False,
      sentry_inits = [], sentry_captures = [], http_posts = []\<rparr>"

subsection \<open>\<open>initializeTransports\<close>\<close>

text \<open>
  The function given to the cloud sink as \<open>logStreamName\<close>; \<open>tag\<close> is its free variable.
  \<^verbatim>\<open>const date = new Date().toISOString().split("T")[0];
  return `${tag}-${date}`;\<close>
\<close>

definition logStreamName :: "string \<Rightarrow> int \<Rightarrow> string" where
  "logStreamName tag now =
     (let date = first_elem (str_split (toISOString now) (CHR ''T''))
      in tag @ ''-'' @ tmpl date)"

text \<open>\<open>winston.createLogger({levels: config.levels, format: ..., transports})\<close>.\<close>

definition createLogger :: "transport list \<Rightarrow> winston_logger" where
  "createLogger ts =
     \<lparr>wl_levels = config_levels, wl_format = [Timestamp, Printf formatMessage],
      wl_transports = ts, wl_written = []\<rparr>"

definition console_transport :: "string \<Rightarrow> transport" where
  "console_transport level =
     Console \<lparr>co_level = level, co_format = [Colorize, Timestamp, Printf formatMessage]\<rparr>"

definition cloudwatch_transport :: "string \<Rightarrow> string option \<Rightarrow> string \<Rightarrow> string \<Rightarrow> transport" where
  "cloudwatch_transport tag env region level =
     Cloudwatch \<lparr>cw_logGroupName = tag @ ''-'' @ tmpl env,
                 cw_logStreamName = logStreamName tag,
                 cw_awsRegion = region, cw_jsonMessage = True, cw_level = level\<rparr>"

text \<open>
  Later version; \<open>env\<close> is \<open>process.env.NODE_ENV\<close>. The arguments after \<open>tag\<close> have the
  defaults \<open>false\<close>, \<open>null\<close>, \<open>"#b52626"\<close> and \<open>"us-east-1"\<close>.
\<close>

definition initializeTransports ::
  "logger_state \<Rightarrow> string option \<Rightarrow> string option \<Rightarrow> string option \<Rightarrow> bool option \<Rightarrow>
   string option \<Rightarrow> string option \<Rightarrow> string option \<Rightarrow> logger_state result" where
  "initializeTransports this env defaultLevel tag forceConsole webhookUrl webhookColor awsRegion =
     (case (defaultLevel, tag) of
        (Some level, Some tg) \<Rightarrow>
          if level = [] \<or> tg = [] then Inl (Error ''defaultLevel and tag are required'')
          else
            let ts =
                  (if env \<in> set [Some ''test'', Some ''localhost'']
                      \<or> default_arg False forceConsole
                   then [console_transport level]
                   else [cloudwatch_transport tg env (default_arg ''us-east-1'' awsRegion) level])
            in Inr (this\<lparr>this_level := level,
                          this_webhookUrl := webhookUrl,
                          this_webhookColor := Some (default_arg ''#b52626'' webhookColor),
                          this_tag := Some tg,
                          this_logger := Some (createLogger ts)\<rparr>)
      | _ \<Rightarrow> Inl (Error ''defaultLevel and tag are required''))"

text \<open>
  Earlier version: \<open>initializeTransports(logglyToken, defaultLevel = "debug", tag = "trivia")\<close>.
  It has no required argument. The constructor of the Loggly transport throws when the
  subdomain it is given is empty, which happens for the tag \<open>""\<close> in production; the
  token, which it requires too, is never empty where the code constructs the transport.
\<close>

definition loggly_transport ::
  "string \<Rightarrow> string \<Rightarrow> string option \<Rightarrow> string \<Rightarrow> transport result" where
  "loggly_transport logglyToken tag env level =
     (let sub = (if env = Some ''production'' then tag else tmpl env @ ''-'' @ tag)
      in if sub = [] then Inl (Error ''Loggly Subdomain is required'')
         else Inr (Loggly \<lparr>lg_token = logglyToken, lg_subdomain = sub,
                           lg_tags = [Some tag, env],
                           lg_json = True, lg_stripColors = True, lg_level = level\<rparr>))"

definition initializeTransports_lib ::
  "logger_state \<Rightarrow> string option \<Rightarrow> string option \<Rightarrow> string option \<Rightarrow> string option \<Rightarrow>
   logger_state result" where
  "initializeTransports_lib this env logglyToken defaultLevel tag =
     (let level = default_arg ''debug'' defaultLevel;
          tg = default_arg ''trivia'' tag
      in if env = Some ''localhost''
         then Inr (this\<lparr>this_level := level,
                        this_logger := Some (createLogger [console_transport level])\<rparr>)
         else if truthy logglyToken
         then (case loggly_transport (tmpl logglyToken) tg env level of
                 Inl e \<Rightarrow> Inl e
               | Inr loggly \<Rightarrow>
                   Inr (this\<lparr>this_level := level,
                             this_logger :=
                               Some (createLogger
                                       [loggly, cloudwatch_transport tg env ''us-east-1'' level])\<rparr>))
         else Inr (this\<lparr>this_level := level,
                        this_logger :=
                          Some (createLogger [cloudwatch_transport tg env ''us-east-1'' level])\<rparr>))"

subsection \<open>\<open>initializeSentry\<close> and \<open>getSentryHandlers\<close> (later version)\<close>

text \<open>The fifth argument, \<open>{ ignoreURLs = [], customURLs = [], customURLsSampleRate = 0.1 } = {}\<close>.\<close>

record sampler_options =
  opt_ignoreURLs :: "string list option"
  opt_customURLs :: "string list option"
  opt_customURLsSampleRate :: "real option"

definition no_options :: sampler_options where
  "no_options = \<lparr>opt_ignoreURLs = None, opt_customURLs = None, opt_customURLsSampleRate = None\<rparr>"

definition initializeSentry ::
  "logger_state \<Rightarrow> string option \<Rightarrow> router \<Rightarrow> string \<Rightarrow> string list option \<Rightarrow> real option \<Rightarrow>
   sampler_options option \<Rightarrow> logger_state" where
  "initializeSentry this env app dsn ignoreErrors tracesSampleRate options =
     (let opts = default_arg no_options options;
          ignoreURLs = default_arg [] (opt_ignoreURLs opts);
          customURLs = default_arg [] (opt_customURLs opts);
          customURLsSampleRate = default_arg 0.1 (opt_customURLsSampleRate opts)
      in if \<not> this_sentry this
         then this\<lparr>sentry_inits := sentry_inits this @
                      [\<lparr>so_dsn = dsn, so_environment = env,
                        so_ignoreErrors = default_arg [] ignoreErrors,
                        so_integrations = [Http True, Express app],
                        so_tracesSampler =
                          tracesSampler (default_arg 0.25 tracesSampleRate) ignoreURLs
                            customURLs customURLsSampleRate\<rparr>],
                    this_sentry := True\<rparr>
         else this)"

text \<open>
  \<open>this.#sentry.Handlers\<close>: the handlers of the SDK, which work with the options of the
  latest \<open>sentry.init\<close>.
\<close>

definition getSentryHandlers :: "logger_state \<Rightarrow> sentry_options option result" where
  "getSentryHandlers this =
     (if \<not> this_sentry this then Inl (Error UNINITIALIZED_ERROR)
      else Inr (if sentry_inits this = [] then None else Some (last (sentry_inits this))))"

subsection \<open>\<open>getLevel\<close> and \<open>setLevel\<close> (the same text in both versions)\<close>

definition getLevel :: "logger_state \<Rightarrow> string result" where
  "getLevel this = Inr (this_level this)"

fun set_transport_level :: "string \<Rightarrow> transport \<Rightarrow> transport" where
  "set_transport_level level (Console opts) = Console (opts\<lparr>co_level := level\<rparr>)"
| "set_transport_level level (Cloudwatch opts) = Cloudwatch (opts\<lparr>cw_level := level\<rparr>)"
| "set_transport_level level (Loggly opts) = Loggly (opts\<lparr>lg_level := level\<rparr>)"

definition setLevel :: "logger_state \<Rightarrow> string \<Rightarrow> logger_state result" where
  "setLevel this level =
     (case this_logger this of
        None \<Rightarrow> Inl (Error UNINITIALIZED_ERROR)
      | Some lg \<Rightarrow>
          Inr (this\<lparr>this_level := level,
                    this_logger :=
                      Some (lg\<lparr>wl_transports := map (set_transport_level level) (wl_transports lg)\<rparr>)\<rparr>))"

subsection \<open>\<open>postWebhookAlert\<close> (later version)\<close>

text \<open>The local helpers \<open>format\<close>, \<open>stringify\<close>, \<open>codify\<close> and \<open>capitalize\<close>.\<close>

definition format :: "string \<Rightarrow> string" where
  "format text = [CHR 0x60] @ text @ [CHR 0x60]"

definition stringify :: "jsval \<Rightarrow> string option result" where
  "stringify ob = JSON_stringify ob 1"

definition codify :: "string \<Rightarrow> bool \<Rightarrow> string" where
  "codify fld isCode =
     (if isCode then [CHR 0x60, CHR 0x60, CHR 0x60] @ fld @ [CHR 0x60, CHR 0x60, CHR 0x60]
      else fld)"

text \<open>\<open>toUpperCase\<close> on one ASCII character; the keys it is applied to are ASCII.\<close>

definition toUpperCase_char :: "char \<Rightarrow> char" where
  "toUpperCase_char c =
     (if 97 \<le> (of_char c :: nat) \<and> (of_char c :: nat) \<le> 122
      then char_of ((of_char c :: nat) - 32) else c)"

fun capitalize :: "string \<Rightarrow> string" where
  "capitalize [] = []"
| "capitalize (c # cs) = toUpperCase_char c # cs"

text \<open>
  An element of the local array \<open>fields\<close>: a title, the \<open>code\<close> flag (absent is falsy) and
  the \<open>value\<close> object, whose values are strings or \<open>undefined\<close>.
\<close>

record raw_field =
  rf_title :: string
  rf_code :: bool
  rf_value :: "(string \<times> string option) list"

definition render_field :: "raw_field \<Rightarrow> field" where
  "render_field f =
     \<lparr>fd_title = rf_title f, fd_short = False,
      fd_value =
        concat (map (\<lambda>(k, v). case v of
                                 None \<Rightarrow> []
                               | Some x \<Rightarrow> ''*'' @ capitalize k @ ''*: '' @ codify x (rf_code f)
                                           @ ''\<newline>'')
                    (rf_value f))\<rparr>"

text \<open>
  The body of the \<open>try\<close> block. \<open>net\<close> tells how \<open>axios.post\<close> ends for a request: \<open>None\<close> when
  it succeeds, the rejection otherwise. The result is \<open>Inl\<close> when the block throws, with
  the state as it is at that point.
\<close>

definition postWebhookAlert_try ::
  "logger_state \<Rightarrow> string option \<Rightarrow> (http_post \<Rightarrow> js_exn option) \<Rightarrow> js_err \<Rightarrow> string option \<Rightarrow>
   string option \<Rightarrow> jsval \<Rightarrow> string option \<Rightarrow> unit result \<times> logger_state" where
  "postWebhookAlert_try this env net err message eventType payload webhookUrl =
     (if \<not> truthy (this_webhookUrl this) \<and> \<not> truthy webhookUrl then (Inr (), this)
      else
        case opt_toString err of
          Inl e \<Rightarrow> (Inl e, this)
        | Inr shown \<Rightarrow>
        (let pretext = ''*'' @ customFormat message eventType @ ''*\<newline>'' @ tmpl shown
        in case stringify payload of
             Inl e \<Rightarrow> (Inl e, this)
           | Inr payload_text \<Rightarrow>
               let fields =
                     [\<lparr>rf_title = ''Please find details below:'', rf_code = False,
                       rf_value = [(''environment'', Some (format (tmpl env))),
                                   (''message'', opt_message err)]\<rparr>,
                      \<lparr>rf_title = ''Payload'', rf_code = True,
                       rf_value = [(''payload'', payload_text)]\<rparr>]
                     @ (if truthy (opt_stack err)
                        then [\<lparr>rf_title = ''Stack Trace'', rf_code = True,
                               rf_value = [(''stack'', opt_stack err)]\<rparr>]
                        else []);
                   attachments =
                     [\<lparr>att_fallback = ''Alert Event'', att_pretext = pretext,
                       att_color = this_webhookColor this,
                       att_fields = map render_field fields\<rparr>];
                   req = \<lparr>post_url = (case webhookUrl of
                                          None \<Rightarrow> this_webhookUrl this
                                        | Some u \<Rightarrow> Some u),
                          post_attachments = attachments,
                          post_headers = [(''Content-Type'', ''application/json'')]\<rparr>;
                   sent = this\<lparr>http_posts := http_posts this @ [req]\<rparr>
               in (case net req of None \<Rightarrow> (Inr (), sent) | Some e \<Rightarrow> (Inl e, sent))))"

text \<open>
  The async function: its promise and the state afterwards. The \<open>catch\<close> block is empty,
  and the defaults \<open>payload = {}\<close> and \<open>webhookUrl = null\<close> are outside the \<open>try\<close>.
\<close>

datatype promise = Resolved | Rejected js_exn

definition postWebhookAlert ::
  "logger_state \<Rightarrow> string option \<Rightarrow> (http_post \<Rightarrow> js_exn option) \<Rightarrow> js_err \<Rightarrow> string option \<Rightarrow>
   string option \<Rightarrow> jsval option \<Rightarrow> string option \<Rightarrow> promise \<times> logger_state" where
  "postWebhookAlert this env net err message eventType payload webhookUrl =
     (case postWebhookAlert_try this env net err message eventType
             (default_arg (JObj []) payload) webhookUrl of
        (Inl e, s) \<Rightarrow> (Resolved, s)
      | (Inr u, s) \<Rightarrow> (Resolved, s))"

subsection \<open>The leveled logging calls\<close>

definition winston_log :: "winston_logger \<Rightarrow> string \<Rightarrow> string \<Rightarrow> jsval \<Rightarrow> winston_logger" where
  "winston_log lg level message meta =
     lg\<lparr>wl_written := wl_written lg @
           [\<lparr>entry_level = level, entry_message = message, entry_meta = meta\<rparr>]\<rparr>"

definition debug ::
  "logger_state \<Rightarrow> string option \<Rightarrow> string option \<Rightarrow> jsval option \<Rightarrow> logger_state result" where
  "debug this message eventType payload =
     (case this_logger this of
        None \<Rightarrow> Inl (Error UNINITIALIZED_ERROR)
      | Some lg \<Rightarrow>
          Inr (this\<lparr>this_logger :=
                      Some (winston_log lg ''debug'' (customFormat message eventType)
                              (default_arg (JObj []) payload))\<rparr>))"

definition info ::
  "logger_state \<Rightarrow> string option \<Rightarrow> string option \<Rightarrow> jsval option \<Rightarrow> logger_state result" where
  "info this message eventType payload =
     (case this_logger this of
        None \<Rightarrow> Inl (Error UNINITIALIZED_ERROR)
      | Some lg \<Rightarrow>
          Inr (this\<lparr>this_logger :=
                      Some (winston_log lg ''info'' (customFormat message eventType)
                              (default_arg (JObj []) payload))\<rparr>))"

definition warn ::
  "logger_state \<Rightarrow> string option \<Rightarrow> string option \<Rightarrow> jsval option \<Rightarrow> logger_state result" where
  "warn this message eventType payload =
     (case this_logger this of
        None \<Rightarrow> Inl (Error UNINITIALIZED_ERROR)
      | Some lg \<Rightarrow>
          Inr (this\<lparr>this_logger :=
                      Some (winston_log lg ''warn'' (customFormat message eventType)
                              (default_arg (JObj []) payload))\<rparr>))"

text \<open>
  \<open>{ ...payload }\<close>: the own enumerable properties of the payload; those of an array or a
  string are its indices.
\<close>

fun indexed :: "int \<Rightarrow> jsval list \<Rightarrow> (string \<times> jsval) list" where
  "indexed i [] = []"
| "indexed i (x # xs) = (decimal i, x) # indexed (i + 1) xs"

fun spread :: "jsval \<Rightarrow> (string \<times> jsval) list" where
  "spread (JObj kvs) = kvs"
| "spread (JArr xs) = indexed 0 xs"
| "spread (JStr s) = indexed 0 (map (\<lambda>c. JStr [c]) s)"
| "spread _ = []"

text \<open>
  \<open>error\<close> (later version). The alert is posted without waiting for it; the model lets it
  run at once.
\<close>

definition error ::
  "logger_state \<Rightarrow> string option \<Rightarrow> (http_post \<Rightarrow> js_exn option) \<Rightarrow> js_err \<Rightarrow> string option \<Rightarrow>
   string option \<Rightarrow> jsval option \<Rightarrow> logger_state result" where
  "error this env net err message eventType payload =
     (case this_logger this of
        None \<Rightarrow> Inl (Error UNINITIALIZED_ERROR)
      | Some lg \<Rightarrow>
          let pl = default_arg (JObj []) payload;
              s1 = (if truthy (this_webhookUrl this)
                    then snd (postWebhookAlert this env net err message eventType (Some pl) None)
                    else this);
              s2 = (if this_sentry s1
                    then s1\<lparr>sentry_captures := sentry_captures s1 @ [(err, spread pl)]\<rparr>
                    else s1)
          in (case formatError err (customFormat message eventType) of
                Inl e \<Rightarrow> Inl e
              | Inr text \<Rightarrow>
                  Inr (s2\<lparr>this_logger := Some (winston_log lg ''error'' text pl)\<rparr>)))"

subsection \<open>Notions used to state the properties\<close>

text \<open>One call of \<open>initializeSentry\<close>: the environment at that moment and the arguments.\<close>

type_synonym sentry_call =
  "string option \<times> router \<times> string \<times> string list option \<times> real option \<times> sampler_options option"

definition initializeSentry_call :: "logger_state \<Rightarrow> sentry_call \<Rightarrow> logger_state" where
  "initializeSentry_call this c =
     (case c of (env, app, dsn, ignoreErrors, tracesSampleRate, options) \<Rightarrow>
        initializeSentry this env app dsn ignoreErrors tracesSampleRate options)"

text \<open>The sinks of the instance: the transports of its winston logger, none before there is one.\<close>

definition active_sinks :: "logger_state \<Rightarrow> transport list" where
  "active_sinks this = (case this_logger this of None \<Rightarrow> [] | Some lg \<Rightarrow> wl_transports lg)"

text \<open>
  The values \<open>JSON.stringify\<close> leaves out of an object, and the presence, anywhere in a
  value, of a BigInt or of a cycle.
\<close>

fun dropped :: "jsval \<Rightarrow> bool" where
  "dropped JUndefined = True"
| "dropped (JFunction src) = True"
| "dropped _ = False"

fun unserializable :: "jsval \<Rightarrow> bool"
  and unserializable_elems :: "jsval list \<Rightarrow> bool"
  and unserializable_members :: "(string \<times> jsval) list \<Rightarrow> bool"
where
  "unserializable (JBigInt n) = True"
| "unserializable JCycle = True"
| "unserializable (JArr xs) = unserializable_elems xs"
| "unserializable (JObj kvs) = unserializable_members kvs"
| "unserializable JUndefined = False"
| "unserializable JNull = False"
| "unserializable (JBool b) = False"
| "unserializable (JNum txt) = False"
| "unserializable JNaN = False"
| "unserializable (JInfinity neg) = False"
| "unserializable (JStr s) = False"
| "unserializable (JFunction src) = False"
| "unserializable_elems [] = False"
| "unserializable_elems (x # xs) = (unserializable x \<or> unserializable_elems xs)"
| "unserializable_members [] = False"
| "unserializable_members ((k, v) # kvs) = (unserializable v \<or> unserializable_members kvs)"

section \<open>Properties of the sampling policy\<close>

text \<open>\<open>includes\<close> is substring containment: the pattern occurs somewhere in the string.\<close>

lemma starts_with_prefix: "starts_with s p \<longleftrightarrow> prefix p s"
  by (induction s p rule: starts_with.induct) auto

lemma str_includes_sublist: "str_includes s p \<longleftrightarrow> sublist p s"
  by (induction s) (auto simp: starts_with_prefix sublist_Cons_right)

lemma str_includes_iff: "str_includes s p \<longleftrightarrow> (\<exists>before after. s = before @ p @ after)"
  by (simp add: str_includes_sublist sublist_def)

lemma opt_includes_Some: "opt_includes (Some u) p \<longleftrightarrow> sublist p u"
  by (simp add: opt_includes_def str_includes_sublist)

lemma list_ex_opt_includes:
  "list_ex (opt_includes (Some u)) ps \<longleftrightarrow> (\<exists>p\<in>set ps. sublist p u)"
  by (simp add: list_ex_iff opt_includes_Some)

lemma list_ex_opt_includes_None: "list_ex (opt_includes None) ps \<longleftrightarrow> False"
  by (simp add: list_ex_iff opt_includes_def)

text \<open>
  Claim C2. For a request with URL \<open>url\<close> and any method, the sampler returns 0 when the
  method is \<open>OPTIONS\<close> or the URL contains \<open>/health\<close> or one of the ignore patterns as a
  substring; otherwise the custom rate when the URL contains one of the custom patterns;
  otherwise the default rate. The result is the rate of the first rule that matches.
\<close>

theorem tracesSampler_policy:
  "tracesSampler tracesSampleRate ignoreURLs customURLs customURLsSampleRate
     (Some \<lparr>ctx_request = Some \<lparr>req_url = Some url, req_method = meth\<rparr>\<rparr>) =
   (if meth = Some ''OPTIONS'' \<or> (\<exists>p \<in> set (''/health'' # ignoreURLs). sublist p url) then 0
    else if (\<exists>p \<in> set customURLs. sublist p url) then customURLsSampleRate
    else tracesSampleRate)"
proof -
  let ?ctx = "Some \<lparr>ctx_request = Some \<lparr>req_url = Some url, req_method = meth\<rparr>\<rparr>"
  have u: "context_url ?ctx = Some url"
    by (simp add: context_url_def)
  have m: "context_method ?ctx = meth"
    by (simp add: context_method_def)
  show ?thesis
    unfolding tracesSampler_def Let_def u m list_ex_opt_includes
    by auto
qed

theorem tracesSampler_policy_witness:
  "tracesSampler 0.25 [''/metrics''] [''/api''] 0.1
     (Some \<lparr>ctx_request = Some \<lparr>req_url = Some ''/v1/health'', req_method = Some ''GET''\<rparr>\<rparr>) = 0
   \<and> tracesSampler 0.25 [''/metrics''] [''/api''] 0.1
     (Some \<lparr>ctx_request = Some \<lparr>req_url = Some ''/api/metrics'', req_method = Some ''GET''\<rparr>\<rparr>) = 0
   \<and> tracesSampler 0.25 [''/metrics''] [''/api''] 0.1
     (Some \<lparr>ctx_request = Some \<lparr>req_url = Some ''/api/users'', req_method = Some ''OPTIONS''\<rparr>\<rparr>) = 0
   \<and> tracesSampler 0.25 [''/metrics''] [''/api''] 0.1
     (Some \<lparr>ctx_request = Some \<lparr>req_url = Some ''/v2/api/users'', req_method = Some ''GET''\<rparr>\<rparr>)
       = 0.1
   \<and> tracesSampler 0.25 [''/metrics''] [''/api''] 0.1
     (Some \<lparr>ctx_request = Some \<lparr>req_url = Some ''/users'', req_method = Some ''GET''\<rparr>\<rparr>) = 0.25"
  using tracesSampler_policy
          [of "0.25" "[''/metrics'']" "[''/api'']" "0.1" "''/v1/health''" "Some ''GET''"]
        tracesSampler_policy
          [of "0.25" "[''/metrics'']" "[''/api'']" "0.1" "''/api/metrics''" "Some ''GET''"]
        tracesSampler_policy
          [of "0.25" "[''/metrics'']" "[''/api'']" "0.1" "''/api/users''" "Some ''OPTIONS''"]
        tracesSampler_policy
          [of "0.25" "[''/metrics'']" "[''/api'']" "0.1" "''/v2/api/users''" "Some ''GET''"]
        tracesSampler_policy
          [of "0.25" "[''/metrics'']" "[''/api'']" "0.1" "''/users''" "Some ''GET''"]
  by (simp add: sublist_Cons_right)

text \<open>
  Without a URL (no context, no request or no \<open>url\<close> in it) no pattern matches: the rate
  is 0 for an \<open>OPTIONS\<close> request and the default rate otherwise.
\<close>

lemma tracesSampler_no_url:
  "context_url context = None \<Longrightarrow>
   tracesSampler tracesSampleRate ignoreURLs customURLs customURLsSampleRate context =
     (if context_method context = Some ''OPTIONS'' then 0 else tracesSampleRate)"
  unfolding tracesSampler_def Let_def
  by (simp add: list_ex_iff opt_includes_def)

lemma tracesSampler_health:
  assumes "sublist ''/health'' url"
  shows "tracesSampler r ig cu cr
           (Some \<lparr>ctx_request = Some \<lparr>req_url = Some url, req_method = m\<rparr>\<rparr>) = 0"
  using assms
  by (simp add: tracesSampler_def Let_def context_url_def context_method_def opt_includes_def
      str_includes_sublist)

section \<open>Properties of the formatter\<close>

text \<open>
  Claim C4, as stated, takes an argument that was passed to be present. The code of the
  later version tests truthiness, so an empty string counts as absent: with the message
  \<open>""\<close> and the event type \<open>"e"\<close> the result is \<open>"e"\<close>, not \<open>"e: "\<close>. The earlier version
  joins the other way round and with \<open>in\<close>: \<open>"m in e"\<close>, not \<open>"e: m"\<close>.
\<close>

theorem customFormat_counterexample:
  "customFormat (Some '''') (Some ''e'') = ''e''
   \<and> customFormat (Some '''') (Some ''e'') \<noteq> ''e'' @ '': '' @ ''''
   \<and> customFormat_lib (Some ''m'') (Some ''e'') = Some ''m in e''"
  by (simp add: customFormat_def customFormat_lib_def truthy_def tmpl_def)

text \<open>
  Claim C4, amended (later version). With "present" read as "a string that is not empty":
  \<open>customFormat\<close> returns \<open>"{eventType}: {message}"\<close> when both are present, the one that is
  present when only one is, and the empty string when neither is.
\<close>

theorem customFormat_cases:
  "(m \<noteq> [] \<and> e \<noteq> [] \<longrightarrow> customFormat (Some m) (Some e) = e @ '': '' @ m)
   \<and> (m \<noteq> [] \<and> \<not> truthy eventType \<longrightarrow> customFormat (Some m) eventType = m)
   \<and> (e \<noteq> [] \<and> \<not> truthy message \<longrightarrow> customFormat message (Some e) = e)
   \<and> (\<not> truthy message \<and> \<not> truthy eventType \<longrightarrow> customFormat message eventType = '''')
   \<and> (truthy v \<longleftrightarrow> (\<exists>s. v = Some s \<and> s \<noteq> []))"
  by (auto simp: customFormat_def truthy_def tmpl_def split: option.splits)

theorem customFormat_cases_witness:
  "customFormat (Some ''m'') (Some ''e'') = ''e: m''
   \<and> customFormat (Some ''m'') None = ''m''
   \<and> customFormat (Some ''m'') (Some '''') = ''m''
   \<and> customFormat None (Some ''e'') = ''e''
   \<and> customFormat (Some '''') (Some ''e'') = ''e''
   \<and> customFormat None None = ''''
   \<and> customFormat (Some '''') None = ''''"
  using customFormat_cases [of "''m''" "''e''" None None]
        customFormat_cases [of "''m''" "''e''" "Some ''''" "Some ''''"]
        customFormat_cases [of "''m''" "''e''" None "Some ''''"]
  by (simp add: truthy_def)

text \<open>
  Claim C5, as stated, fails on the earlier version, which has neither the short path for
  strings nor the \<open>[ERROR]\<close> prefix, and which throws when the error is missing.
\<close>

theorem formatError_lib_counterexample:
  "formatError_lib (ErrString ''boom'') (Some ''ctx'') = Inr ''ctx boom. Stack:\<newline>undefined''
   \<and> formatError_lib (ErrString ''boom'') (Some ''ctx'') \<noteq> Inr ''boom.''
   \<and> formatError_lib ErrNullish (Some ''ctx'') = Inl TypeError"
  by (simp add: formatError_lib_def tmpl_def)

text \<open>
  Claim C5, amended: the later version. For a string \<open>formatError\<close> returns the string
  followed by a full stop. For any other error whose \<open>toString()\<close> returns, it returns
  \<open>"[ERROR] {message} {error.toString()}. Stack:\n{error.stack}"\<close>; a missing stack is
  tolerated and rendered as \<open>undefined\<close>, and so is a missing error. The optional chaining
  guards nothing else: a value without a callable \<open>toString\<close> makes the function throw.
\<close>

theorem formatError_cases:
  "formatError (ErrString s) message = Inr (s @ ''.'')
   \<and> formatError (ErrObject \<lparr>err_toString = Some shown, err_message = msg,
                              err_stack = Some trace\<rparr>) message
       = Inr (''[ERROR] '' @ message @ '' '' @ shown @ ''. Stack:\<newline>'' @ trace)
   \<and> formatError (ErrObject \<lparr>err_toString = Some shown, err_message = msg,
                              err_stack = None\<rparr>) message
       = Inr (''[ERROR] '' @ message @ '' '' @ shown @ ''. Stack:\<newline>undefined'')
   \<and> formatError ErrNullish message =
       Inr (''[ERROR] '' @ message @ '' undefined. Stack:\<newline>undefined'')
   \<and> formatError (ErrObject \<lparr>err_toString = None, err_message = msg,
                              err_stack = stack\<rparr>) message
       = Inl TypeError"
  by (simp add: formatError_def tmpl_def)

lemma formatError_examples:
  "formatError (ErrString ''boom'') ''ctx'' = Inr ''boom.''
   \<and> formatError (ErrObject \<lparr>err_toString = Some ''Error: x'', err_message = Some ''x'',
                              err_stack = Some ''Error: x at f''\<rparr>) ''ctx''
       = Inr ''[ERROR] ctx Error: x. Stack:\<newline>Error: x at f''
   \<and> formatError (ErrObject \<lparr>err_toString = Some ''[object Object]'', err_message = None,
                              err_stack = None\<rparr>) ''ctx''
       = Inr ''[ERROR] ctx [object Object]. Stack:\<newline>undefined''"
  by (simp add: formatError_def tmpl_def)

text \<open>In the model the only thing \<open>formatError\<close> throws is the TypeError of the call.\<close>

lemma formatError_throws_TypeError: "formatError err message = Inl x \<Longrightarrow> x = TypeError"
  by (cases err) (auto simp: formatError_def split: option.splits sum.splits if_splits)

section \<open>Properties of the facade\<close>

text \<open>
  Claim C10. \<open>getLevel\<close> has no initialization check: on every instance it returns the
  current level and throws nothing. A new instance has no winston logger, its level is
  \<open>debug\<close>, and \<open>setLevel\<close> on it throws.
\<close>

theorem getLevel_unguarded:
  "getLevel this = Inr (this_level this)
   \<and> this_logger new_Logger = None
   \<and> getLevel new_Logger = Inr ''debug''
   \<and> setLevel new_Logger level = Inl (Error UNINITIALIZED_ERROR)"
  by (simp add: getLevel_def setLevel_def new_Logger_def)

text \<open>
  Only \<open>initializeTransports\<close> writes \<open>this.logger\<close>, and it writes a logger: an instance
  is uninitialized exactly as long as the field is \<open>null\<close>.
\<close>

lemma initializeTransports_sets_logger:
  "initializeTransports this env defaultLevel tag forceConsole webhookUrl webhookColor awsRegion
     = Inr this' \<Longrightarrow> this_logger this' \<noteq> None"
  by (auto simp: initializeTransports_def Let_def split: option.splits if_splits)

lemma initializeSentry_keeps_logger:
  "this_logger (initializeSentry this env app dsn ignoreErrors tracesSampleRate options)
     = this_logger this"
  by (simp add: initializeSentry_def Let_def)

lemma postWebhookAlert_keeps_logger:
  "this_logger (snd (postWebhookAlert this env net err message eventType payload webhookUrl))
     = this_logger this"
  by (auto simp: postWebhookAlert_def postWebhookAlert_try_def Let_def
      split: prod.splits sum.splits option.splits if_splits)

lemma operations_keep_initialized:
  assumes "this_logger this \<noteq> None"
  shows "debug this message eventType payload = Inr this' \<Longrightarrow> this_logger this' \<noteq> None"
    and "info this message eventType payload = Inr this' \<Longrightarrow> this_logger this' \<noteq> None"
    and "warn this message eventType payload = Inr this' \<Longrightarrow> this_logger this' \<noteq> None"
    and "error this env net err message eventType payload = Inr this' \<Longrightarrow>
         this_logger this' \<noteq> None"
    and "setLevel this level = Inr this' \<Longrightarrow> this_logger this' \<noteq> None"
  using assms
  by (auto simp: debug_def info_def warn_def error_def setLevel_def Let_def
      split: option.splits if_splits sum.splits)

text \<open>
  Claim C1. On an instance without a winston logger, \<open>debug\<close>, \<open>info\<close>, \<open>warn\<close>, \<open>error\<close>
  and \<open>setLevel\<close> throw the error with the message \<open>UNINITIALIZED_ERROR\<close>, the same for all
  five; on the instance a successful \<open>initializeTransports\<close> returns, none of them does.
\<close>

theorem uninitialized_guard:
  "(this_logger this = None \<longrightarrow>
      debug this message eventType payload = Inl (Error UNINITIALIZED_ERROR)
      \<and> info this message eventType payload = Inl (Error UNINITIALIZED_ERROR)
      \<and> warn this message eventType payload = Inl (Error UNINITIALIZED_ERROR)
      \<and> error this env net err message eventType payload = Inl (Error UNINITIALIZED_ERROR)
      \<and> setLevel this level = Inl (Error UNINITIALIZED_ERROR))
   \<and> (initializeTransports this0 env0 defaultLevel tag forceConsole webhookUrl webhookColor
         awsRegion = Inr this \<longrightarrow>
      debug this message eventType payload \<noteq> Inl (Error UNINITIALIZED_ERROR)
      \<and> info this message eventType payload \<noteq> Inl (Error UNINITIALIZED_ERROR)
      \<and> warn this message eventType payload \<noteq> Inl (Error UNINITIALIZED_ERROR)
      \<and> error this env net err message eventType payload \<noteq> Inl (Error UNINITIALIZED_ERROR)
      \<and> setLevel this level \<noteq> Inl (Error UNINITIALIZED_ERROR))"
proof (intro conjI impI)
  assume "initializeTransports this0 env0 defaultLevel tag forceConsole webhookUrl webhookColor
            awsRegion = Inr this"
  then obtain lg where lg: "this_logger this = Some lg"
    using initializeTransports_sets_logger by blast
  show "debug this message eventType payload \<noteq> Inl (Error UNINITIALIZED_ERROR)"
    by (simp add: debug_def lg)
  show "info this message eventType payload \<noteq> Inl (Error UNINITIALIZED_ERROR)"
    by (simp add: info_def lg)
  show "warn this message eventType payload \<noteq> Inl (Error UNINITIALIZED_ERROR)"
    by (simp add: warn_def lg)
  show "error this env net err message eventType payload \<noteq> Inl (Error UNINITIALIZED_ERROR)"
    using formatError_throws_TypeError
    by (auto simp: error_def lg Let_def split: sum.splits)
  show "setLevel this level \<noteq> Inl (Error UNINITIALIZED_ERROR)"
    by (simp add: setLevel_def lg)
qed (simp_all add: debug_def info_def warn_def error_def setLevel_def)

theorem uninitialized_guard_witness:
  "this_logger new_Logger = None
   \<and> debug new_Logger (Some ''m'') (Some ''e'') None = Inl (Error ''Logger is not initialized'')
   \<and> info new_Logger (Some ''m'') (Some ''e'') None = Inl (Error ''Logger is not initialized'')
   \<and> warn new_Logger (Some ''m'') (Some ''e'') None = Inl (Error ''Logger is not initialized'')
   \<and> error new_Logger (Some ''localhost'') (\<lambda>r. None) (ErrString ''boom'') (Some ''m'')
        (Some ''e'') None = Inl (Error ''Logger is not initialized'')
   \<and> setLevel new_Logger ''warn'' = Inl (Error ''Logger is not initialized'')
   \<and> \<not> isl (initializeTransports new_Logger (Some ''localhost'') (Some ''warn'') (Some ''lounge'')
              None None None None)
   \<and> debug (projr (initializeTransports new_Logger (Some ''localhost'') (Some ''warn'')
                     (Some ''lounge'') None None None None)) (Some ''m'') (Some ''e'') None
       \<noteq> Inl (Error ''Logger is not initialized'')
   \<and> setLevel (projr (initializeTransports new_Logger (Some ''localhost'') (Some ''warn'')
                     (Some ''lounge'') None None None None)) ''warn''
       \<noteq> Inl (Error ''Logger is not initialized'')"
proof -
  let ?r = "initializeTransports new_Logger (Some ''localhost'') (Some ''warn'') (Some ''lounge'')
              None None None None"
  have fresh: "this_logger new_Logger = None"
    by (simp add: new_Logger_def)
  have ok: "\<not> isl ?r"
    by (simp add: initializeTransports_def)
  then have r: "?r = Inr (projr ?r)"
    by simp
  note before =
      uninitialized_guard [where this = new_Logger and message = "Some ''m''"
        and eventType = "Some ''e''" and payload = None and env = "Some ''localhost''"
        and net = "\<lambda>r. None" and err = "ErrString ''boom''" and level = "''warn''",
        THEN conjunct1, rule_format, OF fresh]
  note after =
      uninitialized_guard [where this = "projr ?r" and ?this0.0 = new_Logger
        and ?env0.0 = "Some ''localhost''"
        and defaultLevel = "Some ''warn''" and tag = "Some ''lounge''" and forceConsole = None
        and webhookUrl = None and webhookColor = None and awsRegion = None
        and message = "Some ''m''" and eventType = "Some ''e''" and payload = None
        and level = "''warn''", THEN conjunct2, rule_format, OF r]
  show ?thesis
    using fresh ok before after
    by (simp add: UNINITIALIZED_ERROR_def)
qed

text \<open>
  Once \<open>this.#sentry\<close> is set, \<open>initializeSentry\<close> does nothing, and every call leaves it
  set.
\<close>

lemma initializeSentry_binds:
  "this_sentry (initializeSentry this env app dsn ignoreErrors tracesSampleRate options)"
  by (simp add: initializeSentry_def Let_def)

lemma initializeSentry_bound:
  "this_sentry this \<Longrightarrow>
   initializeSentry this env app dsn ignoreErrors tracesSampleRate options = this"
  by (simp add: initializeSentry_def Let_def)

lemma initializeSentry_calls_bound:
  "this_sentry this \<Longrightarrow> foldl initializeSentry_call this cs = this"
  by (induction cs) (auto simp: initializeSentry_call_def initializeSentry_bound)

text \<open>
  Claim C7. After a call of \<open>initializeSentry\<close>, any further calls, whatever their
  arguments, leave the state as it is. A call on an instance that is bound already changes
  nothing; a call on an unbound instance binds it and calls \<open>sentry.init\<close> once, with the
  sampling policy as \<open>tracesSampler\<close>; and when that call passes no options, the sampler
  still returns 0 for every URL that contains \<open>/health\<close>.
\<close>

theorem initializeSentry_first_write_wins:
  "foldl initializeSentry_call (initializeSentry_call this c) cs = initializeSentry_call this c
   \<and> (this_sentry this \<longrightarrow>
        initializeSentry this env app dsn ignoreErrors tracesSampleRate options = this)
   \<and> (\<not> this_sentry this \<longrightarrow>
        this_sentry (initializeSentry this env app dsn ignoreErrors tracesSampleRate options)
        \<and> sentry_inits (initializeSentry this env app dsn ignoreErrors tracesSampleRate options)
          = sentry_inits this @
            [\<lparr>so_dsn = dsn, so_environment = env,
              so_ignoreErrors = default_arg [] ignoreErrors,
              so_integrations = [Http True, Express app],
              so_tracesSampler =
                tracesSampler (default_arg 0.25 tracesSampleRate)
                  (default_arg [] (opt_ignoreURLs (default_arg no_options options)))
                  (default_arg [] (opt_customURLs (default_arg no_options options)))
                  (default_arg 0.1 (opt_customURLsSampleRate (default_arg no_options options)))\<rparr>])
   \<and> (\<not> this_sentry this \<and> sublist ''/health'' url \<longrightarrow>
        so_tracesSampler
          (last (sentry_inits (initializeSentry this env app dsn ignoreErrors tracesSampleRate None)))
          (Some \<lparr>ctx_request = Some \<lparr>req_url = Some url, req_method = meth\<rparr>\<rparr>) = 0)"
proof (intro conjI impI)
  have "this_sentry (initializeSentry_call this c)"
    by (cases c) (simp add: initializeSentry_call_def initializeSentry_binds)
  then show "foldl initializeSentry_call (initializeSentry_call this c) cs
             = initializeSentry_call this c"
    by (rule initializeSentry_calls_bound)
next
  assume "this_sentry this"
  then show "initializeSentry this env app dsn ignoreErrors tracesSampleRate options = this"
    by (rule initializeSentry_bound)
next
  assume "\<not> this_sentry this"
  then show "this_sentry (initializeSentry this env app dsn ignoreErrors tracesSampleRate options)"
    by (simp add: initializeSentry_binds)
next
  assume "\<not> this_sentry this"
  then show "sentry_inits (initializeSentry this env app dsn ignoreErrors tracesSampleRate options)
          = sentry_inits this @
            [\<lparr>so_dsn = dsn, so_environment = env,
              so_ignoreErrors = default_arg [] ignoreErrors,
              so_integrations = [Http True, Express app],
              so_tracesSampler =
                tracesSampler (default_arg 0.25 tracesSampleRate)
                  (default_arg [] (opt_ignoreURLs (default_arg no_options options)))
                  (default_arg [] (opt_customURLs (default_arg no_options options)))
                  (default_arg 0.1 (opt_customURLsSampleRate (default_arg no_options options)))\<rparr>]"
    by (simp add: initializeSentry_def Let_def)
next
  assume a: "\<not> this_sentry this \<and> sublist ''/health'' url"
  then have "so_tracesSampler
          (last (sentry_inits (initializeSentry this env app dsn ignoreErrors tracesSampleRate None)))
        = tracesSampler (default_arg 0.25 tracesSampleRate) [] [] 0.1"
    by (simp add: initializeSentry_def Let_def default_arg_def no_options_def)
  with a show "so_tracesSampler
          (last (sentry_inits (initializeSentry this env app dsn ignoreErrors tracesSampleRate None)))
          (Some \<lparr>ctx_request = Some \<lparr>req_url = Some url, req_method = meth\<rparr>\<rparr>) = 0"
    by (simp add: tracesSampler_health)
qed

theorem initializeSentry_first_write_wins_witness:
  "\<not> this_sentry new_Logger
   \<and> map so_dsn (sentry_inits
        (initializeSentry
           (initializeSentry new_Logger (Some ''production'') (Router 1) ''dsn-one'' None None None)
           (Some ''production'') (Router 2) ''dsn-two'' (Some [''x'']) (Some 1)
           (Some \<lparr>opt_ignoreURLs = Some [''/skip''], opt_customURLs = None,
                   opt_customURLsSampleRate = None\<rparr>))) = [''dsn-one'']
   \<and> so_tracesSampler
        (last (sentry_inits
           (initializeSentry new_Logger (Some ''production'') (Router 1) ''dsn-one'' None None None)))
        (Some \<lparr>ctx_request = Some \<lparr>req_url = Some ''/api/health'', req_method = Some ''GET''\<rparr>\<rparr>)
       = 0"
proof -
  let ?first =
    "initializeSentry new_Logger (Some ''production'') (Router 1) ''dsn-one'' None None None"
  have fresh: "\<not> this_sentry new_Logger"
    by (simp add: new_Logger_def)
  have inits: "sentry_inits new_Logger = []"
    by (simp add: new_Logger_def)
  have health: "sublist ''/health'' ''/api/health''"
    by (simp add: sublist_Cons_right)
  note first =
    initializeSentry_first_write_wins [where this = new_Logger and env = "Some ''production''"
      and app = "Router 1" and dsn = "''dsn-one''" and ignoreErrors = None
      and tracesSampleRate = None and options = None, THEN conjunct2, THEN conjunct2,
      THEN conjunct1, rule_format, OF fresh]
  note second =
    initializeSentry_first_write_wins [where this = ?first and env = "Some ''production''"
      and app = "Router 2" and dsn = "''dsn-two''" and ignoreErrors = "Some [''x'']"
      and tracesSampleRate = "Some 1"
      and options = "Some \<lparr>opt_ignoreURLs = Some [''/skip''], opt_customURLs = None,
                            opt_customURLsSampleRate = None\<rparr>",
      THEN conjunct2, THEN conjunct1, rule_format, OF first [THEN conjunct1]]
  note sampler =
    initializeSentry_first_write_wins [where this = new_Logger and env = "Some ''production''"
      and app = "Router 1" and dsn = "''dsn-one''" and ignoreErrors = None
      and tracesSampleRate = None and url = "''/api/health''" and meth = "Some ''GET''",
      THEN conjunct2, THEN conjunct2, THEN conjunct2, rule_format, OF conjI [OF fresh health]]
  show ?thesis
    using fresh first second sampler inits by simp
qed

text \<open>After a second call with another DSN the handlers are those of the first call.\<close>

lemma getSentryHandlers_after_second_call:
  "map_sum id (map_option so_dsn)
     (getSentryHandlers
        (initializeSentry
           (initializeSentry new_Logger env (Router 1) ''dsn-one'' None None None)
           env (Router 2) ''dsn-two'' None None None))
   = Inr (Some ''dsn-one'')"
  by (simp add: getSentryHandlers_def initializeSentry_def new_Logger_def Let_def)

text \<open>
  Claim C8. The promise of \<open>postWebhookAlert\<close> is resolved for every state, every input
  and every outcome of the network call; when neither \<open>this.webhookUrl\<close> nor the
  \<open>webhookUrl\<close> argument is set, the state is unchanged, so no request was made.
\<close>

theorem postWebhookAlert_never_raises:
  "fst (postWebhookAlert this env net err message eventType payload webhookUrl) = Resolved
   \<and> (\<not> truthy (this_webhookUrl this) \<and> \<not> truthy webhookUrl \<longrightarrow>
        postWebhookAlert this env net err message eventType payload webhookUrl = (Resolved, this))"
  by (auto simp: postWebhookAlert_def postWebhookAlert_try_def split: prod.splits sum.splits)

theorem postWebhookAlert_never_raises_witness:
  "\<not> truthy (this_webhookUrl new_Logger) \<and> \<not> truthy None
   \<and> postWebhookAlert new_Logger (Some ''production'') (\<lambda>r. Some (Error ''ECONNRESET''))
        (ErrString ''boom'') (Some ''m'') None None None = (Resolved, new_Logger)
   \<and> http_posts (snd (postWebhookAlert new_Logger (Some ''production'')
        (\<lambda>r. Some (Error ''ECONNRESET'')) (ErrString ''boom'') (Some ''m'') None None None)) = []
   \<and> fst (postWebhookAlert (new_Logger\<lparr>this_webhookUrl := Some ''https://hooks.example/x''\<rparr>)
        (Some ''production'') (\<lambda>r. Some (Error ''ECONNRESET''))
        (ErrString ''boom'') (Some ''m'') None None None) = Resolved"
proof -
  have none: "\<not> truthy (this_webhookUrl new_Logger) \<and> \<not> truthy None"
    by (simp add: new_Logger_def truthy_def)
  note quiet =
    postWebhookAlert_never_raises [where this = new_Logger and webhookUrl = None
      and env = "Some ''production''" and net = "\<lambda>r. Some (Error ''ECONNRESET'')"
      and err = "ErrString ''boom''" and message = "Some ''m''" and eventType = None
      and payload = None, THEN conjunct2, rule_format, OF none]
  note resolved =
    postWebhookAlert_never_raises
      [where this = "new_Logger\<lparr>this_webhookUrl := Some ''https://hooks.example/x''\<rparr>"
      and webhookUrl = None
      and env = "Some ''production''" and net = "\<lambda>r. Some (Error ''ECONNRESET'')"
      and err = "ErrString ''boom''" and message = "Some ''m''" and eventType = None
      and payload = None, THEN conjunct1]
  have posts: "http_posts new_Logger = []"
    by (simp add: new_Logger_def)
  show ?thesis
    using none quiet resolved posts by simp
qed

text \<open>
  The \<open>try\<close> block does throw: when the request is rejected, when the payload holds a
  BigInt, which \<open>JSON.stringify\<close> refuses, and when the error has no callable \<open>toString\<close>.
  The \<open>catch\<close> swallows all three.
\<close>

lemma postWebhookAlert_try_network_failure:
  "truthy (this_webhookUrl this) \<or> truthy webhookUrl \<Longrightarrow> opt_toString err = Inr shown \<Longrightarrow>
   stringify payload = Inr text \<Longrightarrow> (\<And>req. net req = Some e) \<Longrightarrow>
   fst (postWebhookAlert_try this env net err message eventType payload webhookUrl) = Inl e"
  by (auto simp: postWebhookAlert_try_def Let_def)

lemma postWebhookAlert_try_serialization_failure:
  "fst (postWebhookAlert_try (new_Logger\<lparr>this_webhookUrl := Some ''https://hooks.example/x''\<rparr>)
          (Some ''production'') net (ErrString ''boom'') (Some ''m'') None
          (JObj [(''id'', JBigInt 10)]) None)
     = Inl TypeError"
  by (simp add: postWebhookAlert_try_def stringify_def JSON_stringify_def new_Logger_def truthy_def)

lemma postWebhookAlert_try_toString_failure:
  "fst (postWebhookAlert_try (new_Logger\<lparr>this_webhookUrl := Some ''https://hooks.example/x''\<rparr>)
          (Some ''production'') net
          (ErrObject \<lparr>err_toString = None, err_message = None, err_stack = None\<rparr>)
          (Some ''m'') None (JObj []) None)
     = Inl TypeError"
  by (simp add: postWebhookAlert_try_def new_Logger_def truthy_def)

section \<open>Properties of the transport selection\<close>

text \<open>
  The later version fails at once, before it changes anything, unless both the default
  level and the tag are non-empty.
\<close>

lemma initializeTransports_succeeds_iff:
  "(\<exists>this'. initializeTransports this env defaultLevel tag forceConsole webhookUrl webhookColor
              awsRegion = Inr this')
   \<longleftrightarrow> truthy defaultLevel \<and> truthy tag"
  by (auto simp: initializeTransports_def truthy_def Let_def split: option.splits)

lemma initializeTransports_required:
  "\<not> truthy defaultLevel \<or> \<not> truthy tag \<Longrightarrow>
   initializeTransports this env defaultLevel tag forceConsole webhookUrl webhookColor awsRegion
     = Inl (Error ''defaultLevel and tag are required'')"
  by (auto simp: initializeTransports_def truthy_def Let_def split: option.splits)

text \<open>
  The earlier version fails in one case only: a token, the production environment and an
  empty tag, for which the Loggly transport refuses its subdomain.
\<close>

lemma initializeTransports_lib_fails_iff:
  "isl (initializeTransports_lib this env logglyToken defaultLevel tag)
   \<longleftrightarrow> env = Some ''production'' \<and> truthy logglyToken \<and> default_arg ''trivia'' tag = []"
  by (auto simp: initializeTransports_lib_def loggly_transport_def Let_def tmpl_def
      split: option.splits)

lemma initializeTransports_lib_error:
  "initializeTransports_lib this env logglyToken defaultLevel tag = Inl e \<Longrightarrow>
   e = Error ''Loggly Subdomain is required''"
  by (auto simp: initializeTransports_lib_def loggly_transport_def Let_def
      split: if_splits)

lemma initializeTransports_lib_sinks:
  assumes "initializeTransports_lib this env logglyToken defaultLevel tag = Inr this'"
  shows "this_level this' = default_arg ''debug'' defaultLevel"
    and "active_sinks this' =
         (if env = Some ''localhost''
          then [console_transport (default_arg ''debug'' defaultLevel)]
          else (if truthy logglyToken
                then [Loggly \<lparr>lg_token = tmpl logglyToken,
                              lg_subdomain =
                                (if env = Some ''production'' then default_arg ''trivia'' tag
                                 else tmpl env @ ''-'' @ default_arg ''trivia'' tag),
                              lg_tags = [Some (default_arg ''trivia'' tag), env],
                              lg_json = True, lg_stripColors = True,
                              lg_level = default_arg ''debug'' defaultLevel\<rparr>]
                else [])
               @ [cloudwatch_transport (default_arg ''trivia'' tag) env ''us-east-1''
                    (default_arg ''debug'' defaultLevel)])"
  using assms
  by (auto simp: initializeTransports_lib_def loggly_transport_def Let_def active_sinks_def
      createLogger_def split: if_splits)

text \<open>
  Claim C3, as stated, has the aggregation sink namespaced by \<open>{tag}-{environment}\<close> like the
  cloud sink. The earlier version, the one with that sink, gives it the subdomain
  \<open>{environment}-{tag}\<close>, and the tag alone in production: with the tag \<open>lounge\<close> the
  subdomain is \<open>staging-lounge\<close> in \<open>staging\<close> and \<open>lounge\<close> in \<open>production\<close>.
\<close>

theorem loggly_subdomain_counterexample:
  "\<not> isl (initializeTransports_lib new_Logger (Some ''staging'') (Some ''token'') (Some ''warn'')
            (Some ''lounge''))
   \<and> active_sinks (projr (initializeTransports_lib new_Logger (Some ''staging'') (Some ''token'')
        (Some ''warn'') (Some ''lounge'')))
       = [Loggly \<lparr>lg_token = ''token'', lg_subdomain = ''staging-lounge'',
                  lg_tags = [Some ''lounge'', Some ''staging''], lg_json = True,
                  lg_stripColors = True, lg_level = ''warn''\<rparr>,
          Cloudwatch \<lparr>cw_logGroupName = ''lounge-staging'',
                      cw_logStreamName = logStreamName ''lounge'',
                      cw_awsRegion = ''us-east-1'', cw_jsonMessage = True,
                      cw_level = ''warn''\<rparr>]
   \<and> ''staging-lounge'' \<noteq> ''lounge-staging''
   \<and> \<not> isl (initializeTransports_lib new_Logger (Some ''production'') (Some ''token'')
            (Some ''warn'') (Some ''lounge''))
   \<and> active_sinks (projr (initializeTransports_lib new_Logger (Some ''production'')
        (Some ''token'') (Some ''warn'') (Some ''lounge'')))
       = [Loggly \<lparr>lg_token = ''token'', lg_subdomain = ''lounge'',
                  lg_tags = [Some ''lounge'', Some ''production''], lg_json = True,
                  lg_stripColors = True, lg_level = ''warn''\<rparr>,
          Cloudwatch \<lparr>cw_logGroupName = ''lounge-production'',
                      cw_logStreamName = logStreamName ''lounge'',
                      cw_awsRegion = ''us-east-1'', cw_jsonMessage = True,
                      cw_level = ''warn''\<rparr>]
   \<and> ''lounge'' \<noteq> ''lounge-production''"
  by (simp add: initializeTransports_lib_def loggly_transport_def Let_def active_sinks_def
      createLogger_def cloudwatch_transport_def default_arg_def tmpl_def truthy_def)

text \<open>
  Claim C3, amended. Later version: on the instance a successful call returns, the only
  sink is a console sink at the default level with \<open>colorize\<close> in its format when the
  environment is \<open>test\<close> or \<open>localhost\<close> or \<open>forceConsole\<close> is set; otherwise the only sink is
  the cloud sink, with the log group \<open>{tag}-{environment}\<close>. Earlier version, which has a
  Loggly token and no \<open>forceConsole\<close>: on the instance a successful call returns, the
  console sink alone when the environment is \<open>localhost\<close>; otherwise the cloud sink with the
  log group \<open>{tag}-{environment}\<close>, preceded, when a token is given, by the Loggly sink,
  whose subdomain is the tag in production and \<open>{environment}-{tag}\<close> elsewhere and whose
  tags are the tag and the environment. The call of the earlier version fails exactly
  when a token is given in production with an empty tag, with the error
  \<open>Loggly Subdomain is required\<close>.
\<close>

theorem initializeTransports_policy:
  "(initializeTransports this env (Some level) (Some tag) forceConsole webhookUrl webhookColor
      awsRegion = Inr this' \<longrightarrow>
      this_level this' = level
      \<and> (if env = Some ''test'' \<or> env = Some ''localhost'' \<or> forceConsole = Some True
         then active_sinks this' =
                [Console \<lparr>co_level = level,
                          co_format = [Colorize, Timestamp, Printf formatMessage]\<rparr>]
         else active_sinks this' =
                [Cloudwatch
                   \<lparr>cw_logGroupName =
                      tag @ ''-'' @ (case env of None \<Rightarrow> ''undefined'' | Some e \<Rightarrow> e),
                    cw_logStreamName = logStreamName tag,
                    cw_awsRegion = (case awsRegion of None \<Rightarrow> ''us-east-1'' | Some r \<Rightarrow> r),
                    cw_jsonMessage = True, cw_level = level\<rparr>]))
   \<and> (tg = (case tag_lib of None \<Rightarrow> ''trivia'' | Some t \<Rightarrow> t)
      \<and> lv = (case defaultLevel_lib of None \<Rightarrow> ''debug'' | Some l \<Rightarrow> l) \<longrightarrow>
      (initializeTransports_lib this env logglyToken defaultLevel_lib tag_lib = Inr this_lib \<longrightarrow>
         this_level this_lib = lv
         \<and> active_sinks this_lib =
           (if env = Some ''localhost''
            then [Console \<lparr>co_level = lv,
                           co_format = [Colorize, Timestamp, Printf formatMessage]\<rparr>]
            else (case logglyToken of
                    None \<Rightarrow> []
                  | Some tok \<Rightarrow>
                      if tok = [] then []
                      else [Loggly \<lparr>lg_token = tok,
                                    lg_subdomain =
                                      (if env = Some ''production'' then tg
                                       else (case env of None \<Rightarrow> ''undefined'' | Some e \<Rightarrow> e)
                                            @ ''-'' @ tg),
                                    lg_tags = [Some tg, env], lg_json = True,
                                    lg_stripColors = True, lg_level = lv\<rparr>])
                 @ [Cloudwatch
                      \<lparr>cw_logGroupName =
                         tg @ ''-'' @ (case env of None \<Rightarrow> ''undefined'' | Some e \<Rightarrow> e),
                       cw_logStreamName = logStreamName tg,
                       cw_awsRegion = ''us-east-1'',
                       cw_jsonMessage = True, cw_level = lv\<rparr>]))
      \<and> (isl (initializeTransports_lib this env logglyToken defaultLevel_lib tag_lib)
           \<longleftrightarrow> env = Some ''production'' \<and> truthy logglyToken \<and> tg = [])
      \<and> (isl (initializeTransports_lib this env logglyToken defaultLevel_lib tag_lib) \<longrightarrow>
           initializeTransports_lib this env logglyToken defaultLevel_lib tag_lib
             = Inl (Error ''Loggly Subdomain is required'')))"
proof (intro conjI impI)
  assume ok: "initializeTransports this env (Some level) (Some tag) forceConsole webhookUrl
                webhookColor awsRegion = Inr this'"
  then show "this_level this' = level"
    by (auto simp: initializeTransports_def Let_def split: if_splits)
  from ok show "if env = Some ''test'' \<or> env = Some ''localhost'' \<or> forceConsole = Some True
         then active_sinks this' =
                [Console \<lparr>co_level = level,
                          co_format = [Colorize, Timestamp, Printf formatMessage]\<rparr>]
         else active_sinks this' =
                [Cloudwatch
                   \<lparr>cw_logGroupName =
                      tag @ ''-'' @ (case env of None \<Rightarrow> ''undefined'' | Some e \<Rightarrow> e),
                    cw_logStreamName = logStreamName tag,
                    cw_awsRegion = (case awsRegion of None \<Rightarrow> ''us-east-1'' | Some r \<Rightarrow> r),
                    cw_jsonMessage = True, cw_level = level\<rparr>]"
    by (auto simp: initializeTransports_def Let_def active_sinks_def createLogger_def
        console_transport_def cloudwatch_transport_def default_arg_def tmpl_def
        split: if_splits option.splits)
next
  assume d: "tg = (case tag_lib of None \<Rightarrow> ''trivia'' | Some t \<Rightarrow> t)
      \<and> lv = (case defaultLevel_lib of None \<Rightarrow> ''debug'' | Some l \<Rightarrow> l)"
  assume ok: "initializeTransports_lib this env logglyToken defaultLevel_lib tag_lib
                = Inr this_lib"
  from d show "this_level this_lib = lv"
    using initializeTransports_lib_sinks(1) [OF ok] by (simp add: default_arg_def)
  from d show "active_sinks this_lib =
           (if env = Some ''localhost''
            then [Console \<lparr>co_level = lv,
                           co_format = [Colorize, Timestamp, Printf formatMessage]\<rparr>]
            else (case logglyToken of
                    None \<Rightarrow> []
                  | Some tok \<Rightarrow>
                      if tok = [] then []
                      else [Loggly \<lparr>lg_token = tok,
                                    lg_subdomain =
                                      (if env = Some ''production'' then tg
                                       else (case env of None \<Rightarrow> ''undefined'' | Some e \<Rightarrow> e)
                                            @ ''-'' @ tg),
                                    lg_tags = [Some tg, env], lg_json = True,
                                    lg_stripColors = True, lg_level = lv\<rparr>])
                 @ [Cloudwatch
                      \<lparr>cw_logGroupName =
                         tg @ ''-'' @ (case env of None \<Rightarrow> ''undefined'' | Some e \<Rightarrow> e),
                       cw_logStreamName = logStreamName tg,
                       cw_awsRegion = ''us-east-1'',
                       cw_jsonMessage = True, cw_level = lv\<rparr>])"
    unfolding initializeTransports_lib_sinks(2) [OF ok]
    by (simp add: console_transport_def cloudwatch_transport_def default_arg_def tmpl_def
        truthy_def split: option.splits)
next
  assume d: "tg = (case tag_lib of None \<Rightarrow> ''trivia'' | Some t \<Rightarrow> t)
      \<and> lv = (case defaultLevel_lib of None \<Rightarrow> ''debug'' | Some l \<Rightarrow> l)"
  then show "isl (initializeTransports_lib this env logglyToken defaultLevel_lib tag_lib)
           \<longleftrightarrow> env = Some ''production'' \<and> truthy logglyToken \<and> tg = []"
    by (simp add: initializeTransports_lib_fails_iff default_arg_def)
next
  assume "isl (initializeTransports_lib this env logglyToken defaultLevel_lib tag_lib)"
  then obtain e where e: "initializeTransports_lib this env logglyToken defaultLevel_lib tag_lib
                            = Inl e"
    by (cases "initializeTransports_lib this env logglyToken defaultLevel_lib tag_lib") auto
  then have "e = Error ''Loggly Subdomain is required''"
    by (rule initializeTransports_lib_error)
  with e show "initializeTransports_lib this env logglyToken defaultLevel_lib tag_lib
                 = Inl (Error ''Loggly Subdomain is required'')"
    by simp
qed

theorem initializeTransports_policy_witness:
  "\<not> isl (initializeTransports new_Logger (Some ''localhost'') (Some ''warn'') (Some ''lounge'')
            None (Some ''https://hooks.example/x'') None (Some ''eu-west-1''))
   \<and> active_sinks (projr (initializeTransports new_Logger (Some ''localhost'') (Some ''warn'')
        (Some ''lounge'') None (Some ''https://hooks.example/x'') None (Some ''eu-west-1'')))
       = [Console \<lparr>co_level = ''warn'',
                   co_format = [Colorize, Timestamp, Printf formatMessage]\<rparr>]
   \<and> \<not> isl (initializeTransports new_Logger (Some ''production'') (Some ''warn'')
            (Some ''lounge'') None None None None)
   \<and> active_sinks (projr (initializeTransports new_Logger (Some ''production'') (Some ''warn'')
        (Some ''lounge'') None None None None))
       = [Cloudwatch \<lparr>cw_logGroupName = ''lounge-production'',
                      cw_logStreamName = logStreamName ''lounge'',
                      cw_awsRegion = ''us-east-1'', cw_jsonMessage = True,
                      cw_level = ''warn''\<rparr>]
   \<and> \<not> isl (initializeTransports_lib new_Logger (Some ''staging'') (Some ''token'')
            (Some ''warn'') (Some ''lounge''))
   \<and> active_sinks (projr (initializeTransports_lib new_Logger (Some ''staging'') (Some ''token'')
        (Some ''warn'') (Some ''lounge'')))
       = [Loggly \<lparr>lg_token = ''token'', lg_subdomain = ''staging-lounge'',
                  lg_tags = [Some ''lounge'', Some ''staging''], lg_json = True,
                  lg_stripColors = True, lg_level = ''warn''\<rparr>,
          Cloudwatch \<lparr>cw_logGroupName = ''lounge-staging'',
                      cw_logStreamName = logStreamName ''lounge'',
                      cw_awsRegion = ''us-east-1'', cw_jsonMessage = True,
                      cw_level = ''warn''\<rparr>]
   \<and> initializeTransports_lib new_Logger (Some ''production'') (Some ''token'') (Some ''warn'')
        (Some '''') = Inl (Error ''Loggly Subdomain is required'')"
proof -
  let ?local = "initializeTransports new_Logger (Some ''localhost'') (Some ''warn'')
                  (Some ''lounge'') None (Some ''https://hooks.example/x'') None
                  (Some ''eu-west-1'')"
  let ?prod = "initializeTransports new_Logger (Some ''production'') (Some ''warn'')
                 (Some ''lounge'') None None None None"
  let ?lib = "initializeTransports_lib new_Logger (Some ''staging'') (Some ''token'')
                (Some ''warn'') (Some ''lounge'')"
  let ?bad = "initializeTransports_lib new_Logger (Some ''production'') (Some ''token'')
                (Some ''warn'') (Some '''')"
  have l: "\<not> isl ?local"
    by (simp add: initializeTransports_def)
  then have l': "?local = Inr (projr ?local)"
    by simp
  have p: "\<not> isl ?prod"
    by (simp add: initializeTransports_def)
  then have p': "?prod = Inr (projr ?prod)"
    by simp
  have defaults: "''lounge'' = (case Some ''lounge'' of None \<Rightarrow> ''trivia'' | Some t \<Rightarrow> t)
      \<and> ''warn'' = (case Some ''warn'' of None \<Rightarrow> ''debug'' | Some l \<Rightarrow> l)"
    by simp
  have empty: "'''' = (case Some '''' of None \<Rightarrow> ''trivia'' | Some t \<Rightarrow> t)
      \<and> ''warn'' = (case Some ''warn'' of None \<Rightarrow> ''debug'' | Some l \<Rightarrow> l)"
    by simp
  note local =
    initializeTransports_policy [THEN conjunct1, rule_format, OF l', THEN conjunct2]
  note prod =
    initializeTransports_policy [THEN conjunct1, rule_format, OF p', THEN conjunct2]
  note lib_ok =
    initializeTransports_policy [where this = new_Logger and env = "Some ''staging''"
      and logglyToken = "Some ''token''", THEN conjunct2, THEN mp, OF defaults,
      THEN conjunct2, THEN conjunct1]
  have s: "\<not> isl ?lib"
    using lib_ok by (simp add: truthy_def)
  then have s': "?lib = Inr (projr ?lib)"
    by simp
  note lib =
    initializeTransports_policy [where this = new_Logger and env = "Some ''staging''"
      and logglyToken = "Some ''token''", THEN conjunct2, THEN mp, OF defaults,
      THEN conjunct1, THEN mp, OF s', THEN conjunct2]
  note bad_iff =
    initializeTransports_policy [where this = new_Logger and env = "Some ''production''"
      and logglyToken = "Some ''token''", THEN conjunct2, THEN mp, OF empty,
      THEN conjunct2, THEN conjunct1]
  have b: "isl ?bad"
    using bad_iff by (simp add: truthy_def)
  note bad =
    initializeTransports_policy [where this = new_Logger and env = "Some ''production''"
      and logglyToken = "Some ''token''", THEN conjunct2, THEN mp, OF empty,
      THEN conjunct2, THEN conjunct2, THEN mp, OF b]
  show ?thesis
    using l p s local prod lib bad by simp
qed

section \<open>Properties of the log-stream name\<close>

text \<open>
  The date part of \<open>toISOString\<close> holds digits, hyphens and a sign only, so splitting at
  \<open>T\<close> returns it whole. The bounds on the month and the day below are crude; they are all
  that this needs.
\<close>

lemma digit_char_not_T: "- 220 < d \<Longrightarrow> d < 10 \<Longrightarrow> digit_char d \<noteq> CHR ''T''"
proof
  assume d: "- 220 < d" "d < 10" and eq: "digit_char d = CHR ''T''"
  from eq have "(of_char (digit_char d) :: int) = of_char (CHR ''T'')"
    by simp
  then have "(48 + d) mod 256 = 84"
    by (simp add: digit_char_def)
  with d show False
    by presburger
qed

lemma decimal_no_T: "- 220 < n \<Longrightarrow> CHR ''T'' \<notin> set (decimal n)"
proof (induction n rule: decimal.induct)
  case (1 n)
  show ?case
  proof (cases "n < 10")
    case True
    then show ?thesis
      using digit_char_not_T [of n] "1.prems" by (subst decimal.simps) auto
  next
    case False
    then have "- 220 < n div 10" "- 220 < n mod 10" "n mod 10 < 10"
      by presburger+
    with False show ?thesis
      using "1.IH" digit_char_not_T [of "n mod 10"] by (subst decimal.simps) auto
  qed
qed

lemma pad_no_T: "- 220 < n \<Longrightarrow> CHR ''T'' \<notin> set (pad w n)"
  by (auto simp: pad_def decimal_no_T)

lemma year_string_no_T: "CHR ''T'' \<notin> set (year_string y)"
  by (auto simp: year_string_def pad_no_T)

lemma div_bounds:
  fixes x k :: int
  assumes "0 < k"
  shows "k * (x div k) \<le> x" and "x < k * (x div k) + k"
proof -
  have "x = k * (x div k) + x mod k"
    by simp
  moreover have "0 \<le> x mod k" "x mod k < k"
    using assms by simp_all
  ultimately show "k * (x div k) \<le> x" and "x < k * (x div k) + k"
    by linarith+
qed

lemma civil_from_days_lower:
  assumes "civil_from_days days = (y, m, d)"
  shows "- 1 \<le> m" and "1 \<le> d"
proof -
  define doe where "doe = (days + 719468) mod 146097"
  define a where "a = doe div 1460"
  define b where "b = doe div 36524"
  define c where "c = doe div 146096"
  define yoe where "yoe = (doe - a + b - c) div 365"
  define q4 where "q4 = yoe div 4"
  define q100 where "q100 = yoe div 100"
  define doy where "doy = doe - (365 * yoe + q4 - q100)"
  define mp where "mp = (5 * doy + 2) div 153"
  define r where "r = (153 * mp + 2) div 5"
  have "civil_from_days days =
          (if (if mp < 10 then mp + 3 else mp - 9) \<le> 2
           then yoe + (days + 719468) div 146097 * 400 + 1
           else yoe + (days + 719468) div 146097 * 400,
           if mp < 10 then mp + 3 else mp - 9, doy - r + 1)"
    unfolding civil_from_days_def Let_def doe_def a_def b_def c_def yoe_def q4_def q100_def
      doy_def mp_def r_def
    by (rule refl)
  with assms have m: "m = (if mp < 10 then mp + 3 else mp - 9)" and d: "d = doy - r + 1"
    by (simp_all only: prod.inject)
  have doe: "0 \<le> doe" "doe < 146097"
    by (simp_all add: doe_def)
  have a: "1460 * a \<le> doe" "doe < 1460 * a + 1460"
    unfolding a_def by (rule div_bounds; simp)+
  have b: "36524 * b \<le> doe" "doe < 36524 * b + 36524"
    unfolding b_def by (rule div_bounds; simp)+
  have c: "146096 * c \<le> doe" "doe < 146096 * c + 146096"
    unfolding c_def by (rule div_bounds; simp)+
  have yoe: "365 * yoe \<le> doe - a + b - c" "doe - a + b - c < 365 * yoe + 365"
    unfolding yoe_def by (rule div_bounds; simp)+
  have q4: "4 * q4 \<le> yoe" "yoe < 4 * q4 + 4"
    unfolding q4_def by (rule div_bounds; simp)+
  have q100: "100 * q100 \<le> yoe" "yoe < 100 * q100 + 100"
    unfolding q100_def by (rule div_bounds; simp)+
  have mp: "153 * mp \<le> 5 * doy + 2" "5 * doy + 2 < 153 * mp + 153"
    unfolding mp_def by (rule div_bounds; simp)+
  have r: "5 * r \<le> 153 * mp + 2" "153 * mp + 2 < 5 * r + 5"
    unfolding r_def by (rule div_bounds; simp)+
  have "- 105 \<le> doy"
    using doe a b c yoe q4 q100 unfolding doy_def by linarith
  with mp have "- 4 \<le> mp"
    by linarith
  then show "- 1 \<le> m"
    unfolding m by simp
  show "1 \<le> d"
    using mp r unfolding d by linarith
qed

lemma date_string_no_T: "CHR ''T'' \<notin> set (date_string days)"
proof -
  obtain y m d where c: "civil_from_days days = (y, m, d)"
    by (cases "civil_from_days days") auto
  then have "- 220 < m" "- 220 < d"
    using civil_from_days_lower [OF c] by linarith+
  with c show ?thesis
    by (simp add: date_string_def year_string_no_T pad_no_T)
qed

lemma split_acc_first:
  "sep \<notin> set xs \<Longrightarrow>
   split_acc sep acc (xs @ sep # rest) = (rev acc @ xs) # split_acc sep [] rest"
  by (induction xs arbitrary: acc) auto

lemma first_elem_split:
  "sep \<notin> set xs \<Longrightarrow> first_elem (str_split (xs @ sep # rest) sep) = Some xs"
  by (simp add: str_split_def split_acc_first first_elem_def)

lemma logStreamName_date:
  "logStreamName tag now = tag @ ''-'' @ date_string (now div 86400000)"
proof -
  have "toISOString now
        = date_string (now div 86400000) @ CHR ''T'' # time_string (now mod 86400000)"
    by (simp add: toISOString_def)
  then have "first_elem (str_split (toISOString now) (CHR ''T''))
             = Some (date_string (now div 86400000))"
    by (simp add: first_elem_split date_string_no_T)
  then show ?thesis
    by (simp add: logStreamName_def tmpl_def)
qed

text \<open>
  The rendering at sample instants: the epoch, the millisecond before it, the leap days of
  2000 and 2024, the last millisecond of 2024-05-01, and 2100-03-01, which follows
  2100-02-28.
\<close>

lemma toISOString_examples:
  "toISOString 0 = ''1970-01-01T00:00:00.000Z''"
  "toISOString (- 1) = ''1969-12-31T23:59:59.999Z''"
  "toISOString 951782400000 = ''2000-02-29T00:00:00.000Z''"
  "toISOString 1709164800000 = ''2024-02-29T00:00:00.000Z''"
  "toISOString 1714607999999 = ''2024-05-01T23:59:59.999Z''"
  "toISOString 4107542400000 = ''2100-03-01T00:00:00.000Z''"
  by code_simp+

text \<open>The cloud sink holds the function itself, with the tag of the call.\<close>

lemma cloud_sink_stream_name:
  assumes "initializeTransports this env (Some level) (Some tag) forceConsole webhookUrl
             webhookColor awsRegion = Inr this'"
    and "Cloudwatch opts \<in> set (active_sinks this')"
  shows "cw_logStreamName opts = logStreamName tag"
  using assms
  by (auto simp: initializeTransports_def Let_def active_sinks_def createLogger_def
      console_transport_def cloudwatch_transport_def split: if_splits)

lemma cloud_sink_stream_name_lib:
  assumes "initializeTransports_lib this env logglyToken defaultLevel (Some tag) = Inr this'"
    and "Cloudwatch opts \<in> set (active_sinks this')"
  shows "cw_logStreamName opts = logStreamName tag"
  using assms
  by (auto simp: initializeTransports_lib_def Let_def active_sinks_def createLogger_def
      console_transport_def cloudwatch_transport_def loggly_transport_def default_arg_def
      split: if_splits)

text \<open>
  Claim C9. The stream name is a function of the clock reading at the request: for every
  \<open>now\<close> it is \<open>{tag}-{date}\<close>, the date being the UTC calendar date of \<open>now\<close> as
  \<open>YYYY-MM-DD\<close>. This holds for the function as such and for the one the cloud sink of
  either version holds, whenever the transports were initialized; with the tag \<open>lounge\<close> on
  2024-05-01 the name is \<open>lounge-2024-05-01\<close>, and a day later the same sink answers
  \<open>lounge-2024-05-02\<close>.
\<close>

theorem logStreamName_by_date:
  "logStreamName tag now = tag @ ''-'' @ date_string (now div 86400000)
   \<and> (initializeTransports this env (Some level) (Some tag) forceConsole webhookUrl
         webhookColor awsRegion = Inr this'
       \<and> Cloudwatch opts \<in> set (active_sinks this') \<longrightarrow>
       cw_logStreamName opts now = tag @ ''-'' @ date_string (now div 86400000))
   \<and> (initializeTransports_lib this env logglyToken defaultLevel (Some tag) = Inr this_lib
       \<and> Cloudwatch opts \<in> set (active_sinks this_lib) \<longrightarrow>
       cw_logStreamName opts now = tag @ ''-'' @ date_string (now div 86400000))"
proof (intro conjI impI)
  show "logStreamName tag now = tag @ ''-'' @ date_string (now div 86400000)"
    by (rule logStreamName_date)
next
  assume "initializeTransports this env (Some level) (Some tag) forceConsole webhookUrl
            webhookColor awsRegion = Inr this'
          \<and> Cloudwatch opts \<in> set (active_sinks this')"
  then have "cw_logStreamName opts = logStreamName tag"
    using cloud_sink_stream_name by blast
  then show "cw_logStreamName opts now = tag @ ''-'' @ date_string (now div 86400000)"
    by (simp add: logStreamName_date)
next
  assume "initializeTransports_lib this env logglyToken defaultLevel (Some tag) = Inr this_lib
          \<and> Cloudwatch opts \<in> set (active_sinks this_lib)"
  then have "cw_logStreamName opts = logStreamName tag"
    using cloud_sink_stream_name_lib by blast
  then show "cw_logStreamName opts now = tag @ ''-'' @ date_string (now div 86400000)"
    by (simp add: logStreamName_date)
qed

theorem logStreamName_by_date_witness:
  "logStreamName ''lounge'' 1714521600000 = ''lounge-2024-05-01''
   \<and> \<not> isl (initializeTransports new_Logger (Some ''production'') (Some ''warn'')
            (Some ''lounge'') None None None None)
   \<and> Cloudwatch \<lparr>cw_logGroupName = ''lounge-production'',
                   cw_logStreamName = logStreamName ''lounge'',
                   cw_awsRegion = ''us-east-1'', cw_jsonMessage = True, cw_level = ''warn''\<rparr>
       \<in> set (active_sinks (projr (initializeTransports new_Logger (Some ''production'')
                  (Some ''warn'') (Some ''lounge'') None None None None)))
   \<and> cw_logStreamName
        \<lparr>cw_logGroupName = ''lounge-production'', cw_logStreamName = logStreamName ''lounge'',
         cw_awsRegion = ''us-east-1'', cw_jsonMessage = True, cw_level = ''warn''\<rparr>
        1714608000000 = ''lounge-2024-05-02''
   \<and> \<not> isl (initializeTransports_lib new_Logger (Some ''production'') None (Some ''warn'')
            (Some ''lounge''))
   \<and> Cloudwatch \<lparr>cw_logGroupName = ''lounge-production'',
                   cw_logStreamName = logStreamName ''lounge'',
                   cw_awsRegion = ''us-east-1'', cw_jsonMessage = True, cw_level = ''warn''\<rparr>
       \<in> set (active_sinks (projr (initializeTransports_lib new_Logger (Some ''production'')
                  None (Some ''warn'') (Some ''lounge''))))"
proof -
  let ?prod = "initializeTransports new_Logger (Some ''production'') (Some ''warn'')
                 (Some ''lounge'') None None None None"
  let ?lib = "initializeTransports_lib new_Logger (Some ''production'') None (Some ''warn'')
                (Some ''lounge'')"
  let ?opts = "\<lparr>cw_logGroupName = ''lounge-production'',
                 cw_logStreamName = logStreamName ''lounge'',
                 cw_awsRegion = ''us-east-1'', cw_jsonMessage = True, cw_level = ''warn''\<rparr>"
  have p: "\<not> isl ?prod"
    by (simp add: initializeTransports_def)
  then have p': "?prod = Inr (projr ?prod)"
    by simp
  have sink: "Cloudwatch ?opts \<in> set (active_sinks (projr ?prod))"
    by (simp add: initializeTransports_def active_sinks_def createLogger_def
        cloudwatch_transport_def default_arg_def tmpl_def)
  have q: "\<not> isl ?lib"
    by (simp add: initializeTransports_lib_def Let_def truthy_def)
  then have q': "?lib = Inr (projr ?lib)"
    by simp
  have sink_lib: "Cloudwatch ?opts \<in> set (active_sinks (projr ?lib))"
    by (simp add: initializeTransports_lib_def Let_def active_sinks_def createLogger_def
        cloudwatch_transport_def default_arg_def tmpl_def truthy_def)
  have d1: "date_string (1714521600000 div 86400000) = ''2024-05-01''"
    by code_simp
  have d2: "date_string (1714608000000 div 86400000) = ''2024-05-02''"
    by code_simp
  note name = logStreamName_by_date [where tag = "''lounge''" and now = 1714521600000,
      THEN conjunct1]
  note later = logStreamName_by_date [where now = 1714608000000, THEN conjunct2,
      THEN conjunct1, rule_format, OF conjI [OF p' sink]]
  note later_lib = logStreamName_by_date [where now = 1714608000000, THEN conjunct2,
      THEN conjunct2, rule_format, OF conjI [OF q' sink_lib]]
  show ?thesis
    using p q sink sink_lib name later later_lib unfolding d1 d2 by simp
qed

section \<open>Properties of \<open>formatMessage\<close>\<close>

text \<open>
  \<open>JSON.stringify\<close> and the read-back fail on the same values, those that hold a BigInt
  or a cycle, and with the same error; both leave out the same members of an object.
\<close>

lemma ser_fails_iff:
  "isl (ser gap ind v) \<longleftrightarrow> unserializable v"
  "isl (ser_elems gap ind xs) \<longleftrightarrow> unserializable_elems xs"
  "isl (ser_members gap ind kvs) \<longleftrightarrow> unserializable_members kvs"
  by (induction gap ind v and gap ind xs and gap ind kvs rule: ser_ser_elems_ser_members.induct)
    (auto split: sum.splits)

lemma ser_error:
  "ser gap ind v = Inl e \<Longrightarrow> e = TypeError"
  "ser_elems gap ind xs = Inl e \<Longrightarrow> e = TypeError"
  "ser_members gap ind kvs = Inl e \<Longrightarrow> e = TypeError"
  by (induction gap ind v and gap ind xs and gap ind kvs rule: ser_ser_elems_ser_members.induct)
    (auto split: sum.splits)

lemma read_back_fails_iff:
  "isl (read_back v) \<longleftrightarrow> unserializable v"
  "isl (read_back_elems xs) \<longleftrightarrow> unserializable_elems xs"
  "isl (read_back_members kvs) \<longleftrightarrow> unserializable_members kvs"
  by (induction v and xs and kvs rule: read_back_read_back_elems_read_back_members.induct)
    (auto split: sum.splits)

lemma read_back_error:
  "read_back v = Inl e \<Longrightarrow> e = TypeError"
  "read_back_elems xs = Inl e \<Longrightarrow> e = TypeError"
  "read_back_members kvs = Inl e \<Longrightarrow> e = TypeError"
  by (induction v and xs and kvs rule: read_back_read_back_elems_read_back_members.induct)
    (auto split: sum.splits)

lemma ser_None_iff: "ser gap ind v = Inr None \<longleftrightarrow> dropped v"
  by (cases v) (auto split: sum.splits)

lemma read_back_None_iff: "read_back v = Inr None \<longleftrightarrow> dropped v"
  by (cases v) (auto split: sum.splits)

lemma ser_members_length:
  "ser_members gap ind kvs = Inr ts \<Longrightarrow>
   length ts = length (filter (\<lambda>(k, v). \<not> dropped v) kvs)"
proof (induction kvs arbitrary: ts)
  case Nil
  then show ?case by simp
next
  case (Cons kv kvs)
  obtain k v where kv: "kv = (k, v)"
    by (cases kv) auto
  from Cons.prems obtain r rs where r: "ser gap ind v = Inr r"
    and rs: "ser_members gap ind kvs = Inr rs"
    and ts: "ts = (case r of None \<Rightarrow> []
                  | Some str \<Rightarrow> [quote k @ '':'' @ (if gap = [] then [] else '' '') @ str]) @ rs"
    by (auto simp: kv split: sum.splits)
  have "r = None \<longleftrightarrow> dropped v"
    using r ser_None_iff [of gap ind v] by auto
  with Cons.IH [OF rs] show ?case
    by (auto simp: kv ts split: option.splits)
qed

lemma read_back_members_length:
  "read_back_members kvs = Inr ms \<Longrightarrow>
   length ms = length (filter (\<lambda>(k, v). \<not> dropped v) kvs)"
proof (induction kvs arbitrary: ms)
  case Nil
  then show ?case by simp
next
  case (Cons kv kvs)
  obtain k v where kv: "kv = (k, v)"
    by (cases kv) auto
  from Cons.prems obtain r rs where r: "read_back v = Inr r"
    and rs: "read_back_members kvs = Inr rs"
    and ms: "ms = (case r of None \<Rightarrow> [] | Some w \<Rightarrow> [(k, w)]) @ rs"
    by (auto simp: kv split: sum.splits)
  have "r = None \<longleftrightarrow> dropped v"
    using r read_back_None_iff [of v] by auto
  with Cons.IH [OF rs] show ?case
    by (auto simp: kv ms split: option.splits)
qed

text \<open>
  The test of the source, \<open>isEmpty(JSON.parse(JSON.stringify(meta)))\<close>, holds exactly when
  \<open>JSON.stringify(meta)\<close> is the text \<open>{}\<close>.
\<close>

lemma join_not_empty: "x \<noteq> [] \<Longrightarrow> join sep (x # xs) \<noteq> []"
  by (cases xs) auto

lemma ser_members_not_empty:
  "ser_members gap ind kvs = Inr ts \<Longrightarrow> t \<in> set ts \<Longrightarrow> t \<noteq> []"
proof (induction kvs arbitrary: ts)
  case Nil
  then show ?case by simp
next
  case (Cons kv kvs)
  obtain k v where kv: "kv = (k, v)"
    by (cases kv) auto
  from Cons.prems(1) obtain r rs where rs: "ser_members gap ind kvs = Inr rs"
    and ts: "ts = (case r of None \<Rightarrow> []
                  | Some str \<Rightarrow> [quote k @ '':'' @ (if gap = [] then [] else '' '') @ str]) @ rs"
    by (auto simp: kv split: sum.splits)
  from Cons.prems(2) Cons.IH [OF rs] show ?case
    by (auto simp: ts quote_def split: option.splits)
qed

lemma wrap_empty_iff:
  assumes "\<And>t. t \<in> set ts \<Longrightarrow> t \<noteq> []"
  shows "wrap ''{'' ''}'' [] ind ts = ''{}'' \<longleftrightarrow> ts = []"
proof (cases ts)
  case Nil
  then show ?thesis by (simp add: wrap_def)
next
  case (Cons t rest)
  with assms have "join '','' ts \<noteq> []"
    by (simp add: join_not_empty)
  with Cons show ?thesis
    by (simp add: wrap_def)
qed

lemma JSON_stringify_object_0:
  "JSON_stringify (JObj kvs) 0 =
     (case ser_members [] [] kvs of
        Inl e \<Rightarrow> Inl e
      | Inr ts \<Rightarrow> Inr (Some (wrap ''{'' ''}'' [] [] ts)))"
  by (simp add: JSON_stringify_def)

lemma JSON_stringify_object_2:
  "JSON_stringify (JObj kvs) 2 =
     (case ser_members ''  '' ''  '' kvs of
        Inl e \<Rightarrow> Inl e
      | Inr ts \<Rightarrow> Inr (Some (wrap ''{'' ''}'' ''  '' [] ts)))"
proof -
  have "replicate (min 10 2) (CHR '' '') = ''  ''"
    by (simp add: numeral_2_eq_2)
  then show ?thesis
    by (simp add: JSON_stringify_def)
qed

lemma stringify_empty_iff:
  "JSON_stringify (JObj kvs) 0 = Inr (Some ''{}'') \<longleftrightarrow> ser_members [] [] kvs = Inr []"
  using ser_members_not_empty [of "[]" "[]" kvs] wrap_empty_iff
  by (auto simp: JSON_stringify_object_0 split: sum.splits)

lemma members_empty_iff:
  "ser_members gap ind kvs = Inr [] \<longleftrightarrow> read_back_members kvs = Inr []"
proof
  assume a: "ser_members gap ind kvs = Inr []"
  then have "\<not> unserializable_members kvs"
    using ser_fails_iff(3) [of gap ind kvs] by simp
  then obtain ms where ms: "read_back_members kvs = Inr ms"
    using read_back_fails_iff(3) [of kvs] by (cases "read_back_members kvs") auto
  with a show "read_back_members kvs = Inr []"
    using ser_members_length [OF a] read_back_members_length [OF ms] by simp
next
  assume a: "read_back_members kvs = Inr []"
  then have "\<not> unserializable_members kvs"
    using read_back_fails_iff(3) [of kvs] by simp
  then obtain ts where ts: "ser_members gap ind kvs = Inr ts"
    using ser_fails_iff(3) [of gap ind kvs] by (cases "ser_members gap ind kvs") auto
  with a show "ser_members gap ind kvs = Inr []"
    using ser_members_length [OF ts] read_back_members_length [OF a] by simp
qed

lemma formatMessage_unfold:
  "formatMessage entry =
     (case read_back_members (omit entry [''timestamp'', ''message'', ''level'']) of
        Inl e \<Rightarrow> Inl e
      | Inr ms \<Rightarrow>
          if ms = [] then Inr (message_line entry)
          else (case JSON_stringify (JObj (omit entry [''timestamp'', ''message'', ''level''])) 2 of
                  Inl e \<Rightarrow> Inl e
                | Inr text \<Rightarrow> Inr (message_line entry @ ''\<newline>'' @ tmpl text)))"
  by (simp add: formatMessage_def JSON_parse_stringify_def Let_def split: sum.splits)

lemma formatMessage_empty:
  assumes "JSON_stringify (JObj (omit entry [''timestamp'', ''message'', ''level''])) 0
             = Inr (Some ''{}'')"
  shows "formatMessage entry = Inr (message_line entry)"
proof -
  have "read_back_members (omit entry [''timestamp'', ''message'', ''level'']) = Inr []"
    using assms stringify_empty_iff members_empty_iff by blast
  then show ?thesis
    by (simp add: formatMessage_unfold)
qed

lemma formatMessage_not_empty:
  assumes "JSON_stringify (JObj (omit entry [''timestamp'', ''message'', ''level''])) 0
             \<noteq> Inr (Some ''{}'')"
    and "JSON_stringify (JObj (omit entry [''timestamp'', ''message'', ''level''])) 2
             = Inr (Some pretty)"
  shows "formatMessage entry = Inr (message_line entry @ ''\<newline>'' @ pretty)"
proof -
  let ?meta = "omit entry [''timestamp'', ''message'', ''level'']"
  have "\<not> isl (ser_members ''  '' ''  '' ?meta)"
    using assms(2) by (auto simp: JSON_stringify_object_2 split: sum.splits)
  then have "\<not> unserializable_members ?meta"
    by (simp add: ser_fails_iff)
  then obtain ms where ms: "read_back_members ?meta = Inr ms"
    using read_back_fails_iff(3) [of ?meta] by (cases "read_back_members ?meta") auto
  have "ms \<noteq> []"
    using assms(1) ms stringify_empty_iff members_empty_iff by blast
  with ms assms(2) show ?thesis
    by (simp add: formatMessage_unfold tmpl_def)
qed

lemma members_all_dropped:
  "(\<forall>(k, v) \<in> set kvs. dropped v) \<Longrightarrow> read_back_members kvs = Inr []"
proof (induction kvs)
  case Nil
  then show ?case by simp
next
  case (Cons kv kvs)
  obtain k v where kv: "kv = (k, v)"
    by (cases kv) auto
  with Cons.prems have "dropped v"
    by simp
  then have "read_back v = Inr None"
    by (simp add: read_back_None_iff)
  with Cons show ?case
    by (simp add: kv)
qed

lemma formatMessage_unserializable:
  assumes "unserializable_members (omit entry [''timestamp'', ''message'', ''level''])"
  shows "formatMessage entry = Inl TypeError"
proof -
  let ?meta = "omit entry [''timestamp'', ''message'', ''level'']"
  from assms obtain e where e: "read_back_members ?meta = Inl e"
    using read_back_fails_iff(3) [of ?meta] by (cases "read_back_members ?meta") auto
  then have "e = TypeError"
    by (rule read_back_error)
  with e show ?thesis
    by (simp add: formatMessage_unfold)
qed

text \<open>The shape of the indented rendering of an object.\<close>

lemma two_spaces: "replicate 2 (CHR '' '') = ''  ''"
  by (simp add: numeral_2_eq_2)

lemma JSON_stringify_object_shape:
  assumes "JSON_stringify (JObj kvs) 2 = Inr (Some pretty)"
  shows "\<exists>members. ser_members ''  '' ''  '' kvs = Inr members
           \<and> pretty = (if members = [] then ''{}''
                       else ''{\<newline>  '' @ join '',\<newline>  '' members @ ''\<newline>}'')"
proof (cases "ser_members ''  '' ''  '' kvs")
  case (Inl e)
  with assms show ?thesis
    by (simp add: JSON_stringify_object_2)
next
  case (Inr ts)
  with assms have "pretty = wrap ''{'' ''}'' ''  '' [] ts"
    by (simp add: JSON_stringify_object_2)
  with Inr show ?thesis
    by (simp add: wrap_def)
qed

text \<open>
  Claim C6, as stated, has every value that cannot be serialized treated as empty. A BigInt
  cannot be serialized, nor can a cyclic object, and a payload that holds either makes
  \<open>formatMessage\<close> throw the TypeError of \<open>JSON.stringify\<close>: there is no \<open>try\<close> in the
  function.
\<close>

theorem formatMessage_throws_counterexample:
  "formatMessage [(''timestamp'', JStr ''2024-05-01T00:00:00.000Z''), (''level'', JStr ''info''),
                  (''message'', JStr ''m''), (''id'', JBigInt 10)]
     = Inl TypeError
   \<and> formatMessage [(''timestamp'', JStr ''2024-05-01T00:00:00.000Z''), (''level'', JStr ''info''),
                  (''message'', JStr ''m''), (''id'', JBigInt 10)]
     \<noteq> Inr ''2024-05-01T00:00:00.000Z info: m''
   \<and> formatMessage [(''timestamp'', JStr ''2024-05-01T00:00:00.000Z''), (''level'', JStr ''info''),
                  (''message'', JStr ''m''), (''req'', JObj [(''self'', JCycle)])]
     = Inl TypeError"
  by (simp add: formatMessage_def omit_def JSON_parse_stringify_def)

text \<open>
  Claim C6, amended. With \<open>meta\<close> the record without \<open>timestamp\<close>, \<open>message\<close> and \<open>level\<close>:
  when \<open>meta\<close> serializes to \<open>{}\<close> the result is \<open>"{timestamp} {level}: {message}"\<close> alone;
  when it serializes to something else, the result is that line, a newline and
  \<open>JSON.stringify(meta, null, 2)\<close>; values that \<open>JSON.stringify\<close> leaves out (\<open>undefined\<close>,
  functions) count as nothing, so a payload of such values alone gives the line alone; a
  BigInt or a cycle anywhere in \<open>meta\<close> makes the function throw a TypeError.
\<close>

theorem formatMessage_cases:
  "meta = omit entry [''timestamp'', ''message'', ''level''] \<longrightarrow>
     (JSON_stringify (JObj meta) 0 = Inr (Some ''{}'') \<longrightarrow>
        formatMessage entry = Inr (message_line entry))
     \<and> (JSON_stringify (JObj meta) 0 \<noteq> Inr (Some ''{}'')
        \<and> JSON_stringify (JObj meta) 2 = Inr (Some pretty) \<longrightarrow>
        formatMessage entry = Inr (message_line entry @ ''\<newline>'' @ pretty))
     \<and> ((\<forall>(k, v) \<in> set meta. dropped v) \<longrightarrow> formatMessage entry = Inr (message_line entry))
     \<and> (unserializable (JObj meta) \<longrightarrow> formatMessage entry = Inl TypeError)"
  using formatMessage_empty [of entry] formatMessage_not_empty [of entry pretty]
    members_all_dropped [of "omit entry [''timestamp'', ''message'', ''level'']"]
    formatMessage_unserializable [of entry]
  by (simp add: formatMessage_unfold)

theorem formatMessage_cases_witness:
  "formatMessage [(''timestamp'', JStr ''2024-05-01T00:00:00.000Z''), (''level'', JStr ''info''),
                  (''message'', JStr ''e: m'')]
     = Inr ''2024-05-01T00:00:00.000Z info: e: m''
   \<and> formatMessage [(''timestamp'', JStr ''2024-05-01T00:00:00.000Z''), (''level'', JStr ''info''),
                    (''message'', JStr ''e: m''), (''userId'', JNum ''42''),
                    (''tags'', JArr [JStr ''a'', JUndefined]), (''cb'', JFunction ''f'')]
     = Inr (''2024-05-01T00:00:00.000Z info: e: m\<newline>{\<newline>  '' @ [CHR 0x22] @ ''userId''
            @ [CHR 0x22] @ '': 42,\<newline>  '' @ [CHR 0x22] @ ''tags'' @ [CHR 0x22]
            @ '': [\<newline>    '' @ [CHR 0x22] @ ''a'' @ [CHR 0x22]
            @ '',\<newline>    null\<newline>  ]\<newline>}'')
   \<and> formatMessage [(''timestamp'', JStr ''2024-05-01T00:00:00.000Z''), (''level'', JStr ''info''),
                    (''message'', JStr ''e: m''), (''cb'', JFunction ''f''), (''u'', JUndefined)]
     = Inr ''2024-05-01T00:00:00.000Z info: e: m''
   \<and> formatMessage [(''timestamp'', JStr ''2024-05-01T00:00:00.000Z''), (''level'', JStr ''info''),
                    (''message'', JStr ''e: m''), (''id'', JBigInt 10)]
     = Inl TypeError
   \<and> formatMessage [(''timestamp'', JStr ''2024-05-01T00:00:00.000Z''), (''level'', JStr ''info''),
                    (''message'', JStr ''e: m''), (''req'', JObj [(''self'', JCycle)])]
     = Inl TypeError"
proof -
  let ?base = "[(''timestamp'', JStr ''2024-05-01T00:00:00.000Z''), (''level'', JStr ''info''),
                (''message'', JStr ''e: m'')]"
  let ?m2 = "[(''userId'', JNum ''42''), (''tags'', JArr [JStr ''a'', JUndefined]),
              (''cb'', JFunction ''f'')]"
  let ?m3 = "[(''cb'', JFunction ''f''), (''u'', JUndefined)]"
  let ?m4 = "[(''id'', JBigInt 10)]"
  let ?m5 = "[(''req'', JObj [(''self'', JCycle)])]"
  let ?pretty = "''{\<newline>  '' @ [CHR 0x22] @ ''userId''
            @ [CHR 0x22] @ '': 42,\<newline>  '' @ [CHR 0x22] @ ''tags'' @ [CHR 0x22]
            @ '': [\<newline>    '' @ [CHR 0x22] @ ''a'' @ [CHR 0x22]
            @ '',\<newline>    null\<newline>  ]\<newline>}''"
  have o1: "[] = omit ?base [''timestamp'', ''message'', ''level'']"
    and o2: "?m2 = omit (?base @ ?m2) [''timestamp'', ''message'', ''level'']"
    and o3: "?m3 = omit (?base @ ?m3) [''timestamp'', ''message'', ''level'']"
    and o4: "?m4 = omit (?base @ ?m4) [''timestamp'', ''message'', ''level'']"
    and o5: "?m5 = omit (?base @ ?m5) [''timestamp'', ''message'', ''level'']"
    by (simp_all add: omit_def)
  have line: "message_line (?base @ rest) = ''2024-05-01T00:00:00.000Z info: e: m''" for rest
    by (simp add: message_line_def get_prop_def)
  have e1: "JSON_stringify (JObj []) 0 = Inr (Some ''{}'')"
    by (simp add: JSON_stringify_def wrap_def)
  have n2: "JSON_stringify (JObj ?m2) 0 \<noteq> Inr (Some ''{}'')"
    by (simp add: JSON_stringify_def wrap_def quote_def quote_char_def default_arg_def)
  have p2: "JSON_stringify (JObj ?m2) 2 = Inr (Some ?pretty)"
    by (simp add: JSON_stringify_def two_spaces wrap_def quote_def quote_char_def
        default_arg_def)
  have d3: "\<forall>(k, v) \<in> set ?m3. dropped v"
    by simp
  have b4: "unserializable (JObj ?m4)"
    by simp
  have b5: "unserializable (JObj ?m5)"
    by simp
  note r1 = formatMessage_cases [THEN mp, OF o1, THEN conjunct1, THEN mp, OF e1]
  note r2 = formatMessage_cases [THEN mp, OF o2, THEN conjunct2, THEN conjunct1,
      THEN mp, OF conjI [OF n2 p2]]
  note r3 = formatMessage_cases [THEN mp, OF o3, THEN conjunct2, THEN conjunct2,
      THEN conjunct1, THEN mp, OF d3]
  note r4 = formatMessage_cases [THEN mp, OF o4, THEN conjunct2, THEN conjunct2,
      THEN conjunct2, THEN mp, OF b4]
  note r5 = formatMessage_cases [THEN mp, OF o5, THEN conjunct2, THEN conjunct2,
      THEN conjunct2, THEN mp, OF b5]
  show ?thesis
    using r1 r2 r3 r4 r5 line [of "[]"] line [of ?m2] line [of ?m3] by simp
qed

end
